theory Spec2Isabelle
  imports Main "HOL-Library.AList"
begin

section \<open>Python values\<close>

text \<open>
  A Python \<open>str\<close> is a sequence of Unicode code points, so it is modelled as a list of
  code-point numbers. \<open>str\<close> turns an ASCII literal of the source into such a list; the two
  non-ASCII characters of the source's literals (U+2011 in the forecast line, U+2014 in
  the missing-key diagnostic) are written as their code points.
\<close>

type_synonym pystr = "nat list"

definition str :: "string \<Rightarrow> pystr" where
  "str s = map of_char s"

text \<open>
  The exceptions that the modelled code can see. \<open>ValueError\<close>, \<open>IndexError\<close> and
  \<open>AttributeError\<close> are raised by the source's own statements; \<open>OtherError\<close> is any
  other \<open>Exception\<close> raised inside a collaborator library (requests, feedparser, groq,
  json, open), named by its message.
\<close>

datatype exn = ValueError pystr | IndexError | AttributeError | OtherError pystr

text \<open>
  Values stored in the snapshot dictionary. The float type \<open>'f\<close> is a parameter: the
  model does not fix a floating-point arithmetic.
\<close>

datatype 'f pyval = PStr pystr | PFloat 'f | PInt int | PNone | PList "pystr list"

text \<open>A Python \<open>dict\<close> with string keys, in insertion order.\<close>

type_synonym 'f pydict = "(string \<times> 'f pyval) list"

subsection \<open>String and list primitives used by the source\<close>

text \<open>
  \<open>str.isspace\<close> for one code point: the characters that \<open>str.strip()\<close> and
  \<open>str.split()\<close> without arguments treat as whitespace.
\<close>

definition is_space :: "nat \<Rightarrow> bool" where
  "is_space c \<longleftrightarrow>
     (9 \<le> c \<and> c \<le> 13) \<or> (28 \<le> c \<and> c \<le> 32) \<or> c = 133 \<or> c = 160 \<or> c = 5760 \<or>
     (8192 \<le> c \<and> c \<le> 8202) \<or> c = 8232 \<or> c = 8233 \<or> c = 8239 \<or> c = 8287 \<or> c = 12288"

text \<open>\<open>s.strip()\<close>\<close>

definition strip :: "pystr \<Rightarrow> pystr" where
  "strip s = rev (dropWhile is_space (rev (dropWhile is_space s)))"

text \<open>
  \<open>s.split()\<close>: the maximal runs of non-whitespace characters, in order. \<open>cur\<close> is the
  token being read.
\<close>

fun split_acc :: "pystr \<Rightarrow> pystr \<Rightarrow> pystr list" where
  "split_acc cur [] = (if cur = [] then [] else [cur])"
| "split_acc cur (c # cs) =
     (if is_space c then (if cur = [] then split_acc [] cs else cur # split_acc [] cs)
      else split_acc (cur @ [c]) cs)"

definition split :: "pystr \<Rightarrow> pystr list" where
  "split s = split_acc [] s"

text \<open>\<open>sep.join(xs)\<close>\<close>

fun join :: "pystr \<Rightarrow> pystr list \<Rightarrow> pystr" where
  "join sep [] = []"
| "join sep [x] = x"
| "join sep (x # y # ys) = x @ sep @ join sep (y # ys)"

text \<open>\<open>xs[:n]\<close> for any integer \<open>n\<close>: a negative \<open>n\<close> counts from the end.\<close>

definition slice_to :: "int \<Rightarrow> 'a list \<Rightarrow> 'a list" where
  "slice_to n xs = (if 0 \<le> n then take (nat n) xs else take (length xs - nat (- n)) xs)"

text \<open>\<open>xs[-6:]\<close>: the last six elements, or all of them when there are fewer.\<close>

definition last6 :: "'a list \<Rightarrow> 'a list" where
  "last6 xs = drop (length xs - 6) xs"

section \<open>The environment of the program\<close>

text \<open>
  Every call that leaves the process, every lock operation, every line printed and every
  sleep is recorded as an event, in order. The history of events is the only state that the
  collaborators share with the program.
\<close>

datatype request =
    PriceReq pystr pystr
  | ChartReq "pystr option" pystr int
  | PredReq pystr
  | FeedReq
  | ChatReq pystr pystr

datatype event =
    Acquire
  | Release
  | Net request
  | FileWrite pystr
  | Print exn
  | Sleep int

type_synonym hist = "event list"

text \<open>
  The environment holds what the source takes from outside its own functions:
  \<^item> the primitives of the Python runtime whose tables are not part of the repository
    (\<open>str.upper\<close>, \<open>str.lower\<close>, the two float-to-text conversions \<open>f"{x}"\<close> and
    \<open>f"{x:.6f}"\<close>, float truthiness, division and multiplication);
  \<^item> the module globals computed at import time (\<open>SYMBOL_MAP\<close>, and the environment
    variable behind \<open>GROQ_API_KEY\<close>);
  \<^item> the collaborators. Each answers a request with a value or an exception, and the answer
    may depend on everything that happened before. \<open>price_api\<close> stands for
    \<open>float(requests.get(url).json()[cid][vs])\<close>, \<open>chart_api\<close> for the parsed
    \<open>prices\<close> list of the chart endpoint, \<open>pred_api\<close> for
    \<open>float(j["predictions"]["price_prediction_7d"])\<close>, \<open>feed_api\<close> for the entries of
    \<open>feedparser.parse\<close> (each entry's title, \<open>None\<close> when the entry has none),
    \<open>chat_api\<close> for the \<open>content\<close> of each choice of the completion,
    \<open>file_write\<close> for \<open>open\<close> and \<open>json.dump\<close>, and \<open>utcnow_iso\<close> for
    \<open>datetime.utcnow().isoformat()\<close>.
\<close>

record 'f env =
  str_upper :: "pystr \<Rightarrow> pystr"
  str_lower :: "pystr \<Rightarrow> pystr"
  float_str :: "'f \<Rightarrow> pystr"
  float_fmt6 :: "'f \<Rightarrow> pystr"
  float_truthy :: "'f \<Rightarrow> bool"
  float_div :: "'f \<Rightarrow> 'f \<Rightarrow> 'f"
  float_mul :: "'f \<Rightarrow> 'f \<Rightarrow> 'f"
  SYMBOL_MAP :: "pystr \<rightharpoonup> pystr"
  getenv_GROQ_API_KEY :: "pystr option"
  price_api :: "hist \<Rightarrow> pystr \<Rightarrow> pystr \<Rightarrow> exn + 'f"
  chart_api :: "hist \<Rightarrow> pystr option \<Rightarrow> pystr \<Rightarrow> int \<Rightarrow> exn + (int \<times> 'f) list"
  pred_api :: "hist \<Rightarrow> pystr \<Rightarrow> exn + 'f"
  feed_api :: "hist \<Rightarrow> exn + pystr option list"
  chat_api :: "hist \<Rightarrow> pystr \<Rightarrow> pystr \<Rightarrow> exn + pystr option list"
  file_write :: "hist \<Rightarrow> pystr \<Rightarrow> 'f pydict list \<Rightarrow> exn option"
  utcnow_iso :: "hist \<Rightarrow> pystr"

text \<open>
  A computation takes a state and returns its result, an exception or a value, with the
  new state. The gateways and the decision engine have the history as their state; the
  methods of the bot have the bot and the history. \<open>bind_io\<close> is Python's sequencing:
  an exception skips the rest, and keeps the state reached so far.
\<close>

type_synonym ('a, 's) comp = "'s \<Rightarrow> (exn + 'a) \<times> 's"

type_synonym 'a io = "('a, hist) comp"

definition bind_io :: "('a, 's) comp \<Rightarrow> ('a \<Rightarrow> ('b, 's) comp) \<Rightarrow> ('b, 's) comp" where
  "bind_io m k s = (case m s of (Inl e, s') \<Rightarrow> (Inl e, s') | (Inr x, s') \<Rightarrow> k x s')"

definition return_io :: "'a \<Rightarrow> ('a, 's) comp" where
  "return_io x s = (Inr x, s)"

definition raise_io :: "exn \<Rightarrow> ('a, 's) comp" where
  "raise_io e s = (Inl e, s)"

text \<open>\<open>GROQ_API_KEY = os.getenv("GROQ_API_KEY") or "YOUR_GROQ_API_KEY_HERE"\<close>\<close>

definition KEY_PLACEHOLDER :: pystr where
  "KEY_PLACEHOLDER = str ''YOUR_GROQ_API_KEY_HERE''"

definition GROQ_API_KEY :: "'f env \<Rightarrow> pystr" where
  "GROQ_API_KEY E =
     (case getenv_GROQ_API_KEY E of
        None \<Rightarrow> KEY_PLACEHOLDER
      | Some k \<Rightarrow> if k = [] then KEY_PLACEHOLDER else k)"

section \<open>Market data gateway\<close>

text \<open>
  \<open>get_price\<close>: the symbol is looked up upper-cased; a missing or empty identifier
  raises \<open>ValueError\<close> before any request is made.
\<close>

definition get_price :: "'f env \<Rightarrow> pystr \<Rightarrow> pystr \<Rightarrow> 'f io" where
  "get_price E symb vs h =
     (let cid = SYMBOL_MAP E (str_upper E symb) in
      if cid = None \<or> cid = Some [] then (Inl (ValueError (str ''Unknown symbol '' @ symb)), h)
      else (price_api E h (the cid) (str_lower E vs),
            h @ [Net (PriceReq (the cid) (str_lower E vs))]))"

text \<open>
  \<open>get_history\<close>: the identifier is looked up in the same way but not checked; whatever
  the lookup gives, \<open>None\<close> included, goes into the request.
\<close>

definition get_history :: "'f env \<Rightarrow> pystr \<Rightarrow> pystr \<Rightarrow> int \<Rightarrow> (int \<times> 'f) list io" where
  "get_history E symb vs days h =
     (let cid = SYMBOL_MAP E (str_upper E symb) in
      (chart_api E h cid (str_lower E vs) days,
       h @ [Net (ChartReq cid (str_lower E vs) days)]))"

text \<open>
  The body of the \<open>try\<close> in \<open>get_prediction\<close>, then the function itself, whose
  \<open>except Exception\<close> turns every exception of the body into \<open>None\<close>.
\<close>

definition get_prediction_try :: "'f env \<Rightarrow> pystr \<Rightarrow> pystr \<Rightarrow> 'f option io" where
  "get_prediction_try E symb vs =
     bind_io (\<lambda>h. (pred_api E h (str_lower E symb), h @ [Net (PredReq (str_lower E symb))]))
       (\<lambda>pred_usd.
          if str_upper E vs = str ''USD'' then return_io (Some pred_usd)
          else
            bind_io (get_price E symb vs) (\<lambda>cur_vs.
            bind_io (get_price E symb (str ''USD'')) (\<lambda>cur_usd.
              return_io (if float_truthy E cur_usd
                         then Some (float_mul E (float_div E pred_usd cur_usd) cur_vs)
                         else None))))"

definition get_prediction :: "'f env \<Rightarrow> pystr \<Rightarrow> pystr \<Rightarrow> hist \<Rightarrow> 'f option \<times> hist" where
  "get_prediction E symb vs h =
     (case get_prediction_try E symb vs h of
        (Inl e, h') \<Rightarrow> (None, h')
      | (Inr r, h') \<Rightarrow> (r, h'))"

section \<open>News gateway\<close>

text \<open>
  \<open>latest_news\<close>: the feed is parsed, the entries are sliced to \<open>limit\<close>, and the
  title of each remaining entry is read; reading the title of an entry that has none raises
  \<open>AttributeError\<close>. Nothing is caught here.
\<close>

definition latest_news :: "'f env \<Rightarrow> int \<Rightarrow> pystr list io" where
  "latest_news E limit =
     bind_io (\<lambda>h. (feed_api E h, h @ [Net FeedReq]))
       (\<lambda>entries.
          let es = slice_to limit entries in
          if None \<in> set es then raise_io AttributeError
          else return_io (map the es))"

section \<open>Decision engine\<close>

text \<open>The prompt built by \<open>groq_decision\<close>.\<close>

definition pred_text :: "'f env \<Rightarrow> 'f option \<Rightarrow> pystr" where
  "pred_text E prediction =
     (case prediction of Some p \<Rightarrow> float_fmt6 E p | None \<Rightarrow> str ''N/A'')"

definition recent_line :: "'f env \<Rightarrow> 'f list \<Rightarrow> pystr" where
  "recent_line E recent = join (str '', '') (map (float_fmt6 E) recent)"

definition INSTRUCTION :: pystr where
  "INSTRUCTION = str ''Respond with BUY, SELL, or HOLD (one word).''"

definition prompt_of :: "'f env \<Rightarrow> pystr list \<Rightarrow> 'f \<Rightarrow> 'f option \<Rightarrow> 'f list \<Rightarrow> pystr \<Rightarrow> pystr \<Rightarrow> pystr" where
  "prompt_of E news price prediction recent coin vs =
     str ''News Headlines:'' @ [10] @ join [10] (map (\<lambda>h. str ''- '' @ h) news) @ [10, 10] @
     str ''Current Price '' @ coin @ str ''/'' @ vs @ str '': '' @ float_str E price @ [10] @
     str ''7'' @ [8209] @ str ''day Forecast: '' @ pred_text E prediction @ [10] @
     str ''Recent Hourly Prices: '' @ recent_line E recent @ [10, 10] @
     INSTRUCTION"

definition KEY_MISSING :: pystr where
  "KEY_MISSING = str ''Groq key missing '' @ [8212] @ str '' default HOLD''"

text \<open>
  \<open>groq_decision\<close>: without a usable key the answer is fixed and no request is made;
  otherwise the first choice's content is stripped and its first token, upper-cased, is the
  decision. \<open>choices[0]\<close> of an empty list and \<open>split()[0]\<close> of a string without a
  token raise \<open>IndexError\<close>; \<open>.strip()\<close> of a missing content raises
  \<open>AttributeError\<close>.
\<close>

definition groq_decision ::
  "'f env \<Rightarrow> pystr list \<Rightarrow> 'f \<Rightarrow> 'f option \<Rightarrow> 'f list \<Rightarrow> pystr \<Rightarrow> pystr \<Rightarrow> (pystr \<times> pystr \<times> pystr) io" where
  "groq_decision E news price prediction recent coin vs =
     (let prompt = prompt_of E news price prediction recent coin vs in
      if GROQ_API_KEY E = [] \<or> GROQ_API_KEY E = KEY_PLACEHOLDER
      then return_io (str ''HOLD'', prompt, KEY_MISSING)
      else
        bind_io (\<lambda>h. (chat_api E h (GROQ_API_KEY E) prompt,
                      h @ [Net (ChatReq (GROQ_API_KEY E) prompt)]))
          (\<lambda>choices.
             case choices of
               [] \<Rightarrow> raise_io IndexError
             | None # _ \<Rightarrow> raise_io AttributeError
             | Some content # _ \<Rightarrow>
                 (let ai_raw = strip content in
                  case split ai_raw of
                    [] \<Rightarrow> raise_io IndexError
                  | tok # _ \<Rightarrow> return_io (str_upper E tok, prompt, ai_raw))))"

section \<open>The trading bot\<close>

text \<open>
  The fields of \<open>TradingBot\<close>. The lock has no field: acquiring and releasing it are
  events.
\<close>

record 'f bot =
  bot_coin :: pystr
  bot_vs :: pystr
  bot_interval :: int
  snap :: "'f pydict"
  bot_log :: "'f pydict list"
  log_file :: pystr

type_synonym 'f sys = "'f bot \<times> hist"

text \<open>\<open>__init__\<close>; the interval is stored as given.\<close>

definition TradingBot_init :: "'f env \<Rightarrow> pystr \<Rightarrow> pystr \<Rightarrow> int \<Rightarrow> pystr \<Rightarrow> 'f bot" where
  "TradingBot_init E coin vs interval file =
     \<lparr>bot_coin = str_upper E coin, bot_vs = str_upper E vs, bot_interval = interval,
      snap = [], bot_log = [], log_file = file\<rparr>"

text \<open>
  \<open>save_log\<close> writes the whole log; an exception of the write is printed and goes no
  further.
\<close>

definition save_log :: "'f env \<Rightarrow> 'f sys \<Rightarrow> 'f sys" where
  "save_log E = (\<lambda>(b, h).
     case file_write E h (log_file b) (bot_log b) of
       None \<Rightarrow> (b, h @ [FileWrite (log_file b)])
     | Some e \<Rightarrow> (b, h @ [FileWrite (log_file b), Print e]))"

text \<open>A statement of a method that reads fields of \<open>self\<close> and calls a gateway.\<close>

definition with_bot :: "('f bot \<Rightarrow> 'a io) \<Rightarrow> ('a, 'f sys) comp" where
  "with_bot f = (\<lambda>(b, h). case f b h of (r, h') \<Rightarrow> (r, (b, h')))"

text \<open>
  The block under \<open>with self.lock\<close> in \<open>run\<close>: the snapshot is replaced, a copy of it
  is appended to the log, and the log is saved.
\<close>

definition new_snap ::
  "'f env \<Rightarrow> 'f bot \<Rightarrow> hist \<Rightarrow> 'f \<Rightarrow> 'f option \<Rightarrow> pystr \<Rightarrow> pystr \<Rightarrow> pystr \<Rightarrow> pystr list \<Rightarrow> 'f pydict" where
  "new_snap E b h price pred decision prompt ai_raw news =
     [(''time'', PStr (utcnow_iso E h @ str ''Z'')),
      (''coin'', PStr (bot_coin b)),
      (''vs'', PStr (bot_vs b)),
      (''price'', PFloat price),
      (''prediction'', (case pred of None \<Rightarrow> PNone | Some p \<Rightarrow> PFloat p)),
      (''decision'', PStr decision),
      (''prompt'', PStr prompt),
      (''ai_raw'', PStr ai_raw),
      (''interval'', PInt (bot_interval b)),
      (''news'', PList news)]"

definition publish ::
  "'f env \<Rightarrow> 'f \<Rightarrow> 'f option \<Rightarrow> pystr \<Rightarrow> pystr \<Rightarrow> pystr \<Rightarrow> pystr list \<Rightarrow> (unit, 'f sys) comp" where
  "publish E price pred decision prompt ai_raw news = (\<lambda>(b, h).
     let h1 = h @ [Acquire];
         b1 = b\<lparr>snap := new_snap E b h1 price pred decision prompt ai_raw news\<rparr>;
         b2 = b1\<lparr>bot_log := bot_log b1 @ [snap b1]\<rparr>;
         (b3, h3) = save_log E (b2, h1)
     in (Inr (), (b3, h3 @ [Release])))"

text \<open>The body of the \<open>try\<close> in \<open>run\<close>.\<close>

definition run_try :: "'f env \<Rightarrow> (unit, 'f sys) comp" where
  "run_try E =
     bind_io (with_bot (\<lambda>b. get_price E (bot_coin b) (bot_vs b))) (\<lambda>price.
     bind_io (with_bot (\<lambda>b. get_history E (bot_coin b) (bot_vs b) 1)) (\<lambda>hist_all.
     bind_io (with_bot (\<lambda>b. latest_news E 5)) (\<lambda>news.
     bind_io (with_bot (\<lambda>b h. case get_prediction E (bot_coin b) (bot_vs b) h of
                                 (p, h') \<Rightarrow> (Inr p, h'))) (\<lambda>pred.
     bind_io (with_bot (\<lambda>b. groq_decision E news price pred (map snd (last6 hist_all))
                                 (bot_coin b) (bot_vs b))) (\<lambda>(decision, prompt, ai_raw).
     publish E price pred decision prompt ai_raw news)))))"

text \<open>
  One turn of the \<open>while True\<close> loop of \<open>run\<close>: the \<open>try\<close>, the handler that
  prints the exception, and the sleep.
\<close>

definition run_cycle :: "'f env \<Rightarrow> 'f sys \<Rightarrow> 'f sys" where
  "run_cycle E s =
     (case run_try E s of
        (Inr u, (b, h)) \<Rightarrow> (b, h @ [Sleep (max 5 (bot_interval b))])
      | (Inl e, (b, h)) \<Rightarrow> (b, h @ [Print e, Sleep (max 5 (bot_interval b))]))"

text \<open>The loop never returns; \<open>run n\<close> is its first \<open>n\<close> turns.\<close>

fun run :: "'f env \<Rightarrow> nat \<Rightarrow> 'f sys \<Rightarrow> 'f sys" where
  "run E 0 s = s"
| "run E (Suc n) s = run E n (run_cycle E s)"

text \<open>\<open>snapshot\<close>, \<open>configure\<close> and the routes that read the bot.\<close>

definition snapshot :: "'f sys \<Rightarrow> 'f pydict \<times> 'f sys" where
  "snapshot = (\<lambda>(b, h). (snap b, (b, h @ [Acquire, Release])))"

definition configure :: "'f env \<Rightarrow> pystr \<Rightarrow> pystr \<Rightarrow> int \<Rightarrow> 'f sys \<Rightarrow> 'f sys" where
  "configure E coin vs interval = (\<lambda>(b, h).
     (b\<lparr>bot_coin := str_upper E coin, bot_vs := str_upper E vs,
        bot_interval := max 5 interval,
        snap := AList.update ''status'' (PStr (str ''reconfigured'')) (snap b)\<rparr>,
      h @ [Acquire, Release]))"

definition api_log :: "'f sys \<Rightarrow> 'f pydict list \<times> 'f sys" where
  "api_log = (\<lambda>(b, h). (bot_log b, (b, h @ [Acquire, Release])))"

definition api_history :: "'f env \<Rightarrow> ((int \<times> 'f) list, 'f sys) comp" where
  "api_history E = (\<lambda>(b, h).
     case get_history E (bot_coin b) (bot_vs b) 1 (h @ [Acquire]) of
       (r, h') \<Rightarrow> (r, (b, h' @ [Release])))"

section \<open>Runs of the system\<close>

text \<open>
  Between two turns of the worker's loop, request handlers may call \<open>configure\<close>,
  \<open>snapshot\<close> and the two reading routes. A run is a sequence of such operations, each
  taken as a whole; the publishing block of a turn runs under the lock, so no handler sees
  the state inside it.
\<close>

datatype oper = Cycle | Configure pystr pystr int | Snapshot | ApiLog | ApiHistory

fun step :: "'f env \<Rightarrow> oper \<Rightarrow> 'f sys \<Rightarrow> 'f sys" where
  "step E Cycle s = run_cycle E s"
| "step E (Configure c v i) s = configure E c v i s"
| "step E Snapshot s = snd (snapshot s)"
| "step E ApiLog s = snd (api_log s)"
| "step E ApiHistory s = snd (api_history E s)"

fun exec :: "'f env \<Rightarrow> oper list \<Rightarrow> 'f sys \<Rightarrow> 'f sys" where
  "exec E [] s = s"
| "exec E (x # xs) s = exec E xs (step E x s)"

text \<open>A turn is successful when the body of its \<open>try\<close> ends without an exception.\<close>

definition cycle_ok :: "'f env \<Rightarrow> 'f sys \<Rightarrow> bool" where
  "cycle_ok E s = (case fst (run_try E s) of Inr u \<Rightarrow> True | Inl e \<Rightarrow> False)"

fun successes :: "'f env \<Rightarrow> oper list \<Rightarrow> 'f sys \<Rightarrow> nat" where
  "successes E [] s = 0"
| "successes E (x # xs) s =
     (if x = Cycle \<and> cycle_ok E s then 1 else 0) + successes E xs (step E x s)"

text \<open>The events that an operation added to the history \<open>h\<close>.\<close>

definition added :: "hist \<Rightarrow> hist \<Rightarrow> event list" where
  "added h h' = drop (length h) h'"

text \<open>
  The lock discipline on a sequence of events: no network request and no sleep happens
  between an \<open>Acquire\<close> and the next \<open>Release\<close>. \<open>held\<close> tells whether the lock is
  held at the start.
\<close>

fun lock_ok :: "bool \<Rightarrow> event list \<Rightarrow> bool" where
  "lock_ok held [] = True"
| "lock_ok held (Acquire # es) = lock_ok True es"
| "lock_ok held (Release # es) = lock_ok False es"
| "lock_ok held (Net r # es) = (\<not> held \<and> lock_ok held es)"
| "lock_ok held (Sleep n # es) = (\<not> held \<and> lock_ok held es)"
| "lock_ok held (FileWrite f # es) = lock_ok held es"
| "lock_ok held (Print e # es) = lock_ok held es"

text \<open>
  A history \<open>h'\<close> is a quiet extension of \<open>h\<close> when it adds network requests only.
\<close>

fun is_net :: "event \<Rightarrow> bool" where
  "is_net (Net r) = True"
| "is_net e = False"

definition quiet :: "hist \<Rightarrow> hist \<Rightarrow> bool" where
  "quiet h h' \<longleftrightarrow> (\<exists>evs. h' = h @ evs \<and> list_all is_net evs)"

text \<open>
  A text has the line \<open>l\<close> when \<open>l\<close> stands in it between two newline characters; it
  ends with the line \<open>l\<close> when \<open>l\<close> follows its last newline.
\<close>

definition has_line :: "pystr \<Rightarrow> pystr \<Rightarrow> bool" where
  "has_line text l \<longleftrightarrow> (\<exists>pre post. text = pre @ [10] @ l @ [10] @ post)"

definition ends_with_line :: "pystr \<Rightarrow> pystr \<Rightarrow> bool" where
  "ends_with_line text l \<longleftrightarrow> (\<exists>pre. text = pre @ [10] @ l)"

text \<open>
  The relation between the log and the snapshot that every operation keeps: the log is
  empty, or its last element is the snapshot without its \<open>status\<close> entry.
\<close>

definition log_inv :: "'f bot \<Rightarrow> bool" where
  "log_inv b \<longleftrightarrow> bot_log b = [] \<or> last (bot_log b) = AList.delete ''status'' (snap b)"

section \<open>A mocked environment\<close>

text \<open>
  To run the model on concrete inputs, an environment with fixed answers: floats are
  counted in millionths (an \<open>int\<close>), the text conversions print such a number as a
  decimal, case conversion covers the ASCII letters, and the collaborators answer as in
  the specification's scenario: price 0.523, forecast 0.55, hourly prices 0.50, 0.51, 0.52,
  headlines A and B, symbol XRP, no API key. The chart endpoint has no prices for an
  identifier it does not know.
\<close>

fun digits :: "nat \<Rightarrow> pystr" where
  "digits n = (if n < 10 then [48 + n] else digits (n div 10) @ [48 + n mod 10])"

declare digits.simps [simp del]

definition frac6 :: "nat \<Rightarrow> pystr" where
  "frac6 n = (let d = digits n in replicate (6 - length d) 48 @ d)"

definition micro_fmt6 :: "int \<Rightarrow> pystr" where
  "micro_fmt6 x =
     (if x < 0 then str ''-'' else []) @ digits (nat \<bar>x\<bar> div 1000000) @ str ''.'' @
     frac6 (nat \<bar>x\<bar> mod 1000000)"

definition micro_str :: "int \<Rightarrow> pystr" where
  "micro_str x =
     (let f = rev (dropWhile (\<lambda>c. c = 48) (rev (frac6 (nat \<bar>x\<bar> mod 1000000))))
      in (if x < 0 then str ''-'' else []) @ digits (nat \<bar>x\<bar> div 1000000) @ str ''.'' @
         (if f = [] then str ''0'' else f))"

definition ascii_upper :: "pystr \<Rightarrow> pystr" where
  "ascii_upper s = map (\<lambda>c. if 97 \<le> c \<and> c \<le> 122 then c - 32 else c) s"

definition ascii_lower :: "pystr \<Rightarrow> pystr" where
  "ascii_lower s = map (\<lambda>c. if 65 \<le> c \<and> c \<le> 90 then c + 32 else c) s"

definition mock_env :: "int env" where
  "mock_env =
     \<lparr>str_upper = ascii_upper,
      str_lower = ascii_lower,
      float_str = micro_str,
      float_fmt6 = micro_fmt6,
      float_truthy = (\<lambda>x. x \<noteq> 0),
      float_div = (\<lambda>x y. x * 1000000 div y),
      float_mul = (\<lambda>x y. x * y div 1000000),
      SYMBOL_MAP = [str ''XRP'' \<mapsto> str ''ripple''],
      getenv_GROQ_API_KEY = None,
      price_api = (\<lambda>h cid vs. Inr 523000),
      chart_api = (\<lambda>h cid vs days.
        if cid = Some (str ''ripple'') then Inr [(1, 500000), (2, 510000), (3, 520000)]
        else Inr []),
      pred_api = (\<lambda>h s. Inr 550000),
      feed_api = (\<lambda>h. Inr [Some (str ''A''), Some (str ''B'')]),
      chat_api = (\<lambda>h key prompt. Inr [Some (str ''buy now'')]),
      file_write = (\<lambda>h file entries. None),
      utcnow_iso = (\<lambda>h. str ''2024-01-01T00:00:00'')\<rparr>"

definition mock_bot :: "int bot" where
  "mock_bot = TradingBot_init mock_env (str ''XRP'') (str ''USD'') 60 (str ''trade_log.json'')"

text \<open>The mocked environment with an API key set and a service that replies \<open>reply\<close>.\<close>

definition mock_env_key :: "pystr \<Rightarrow> int env" where
  "mock_env_key reply =
     mock_env\<lparr>getenv_GROQ_API_KEY := Some (str ''gsk_test''),
              chat_api := (\<lambda>h key prompt. Inr [Some reply])\<rparr>"

text \<open>The mocked environment with a log file that cannot be written.\<close>

definition mock_env_disk_full :: "int env" where
  "mock_env_disk_full =
     mock_env\<lparr>file_write := (\<lambda>h file entries. Some (OtherError (str ''disk full'')))\<rparr>"

text \<open>A bot that tracks a symbol the symbol map does not have.\<close>

definition unknown_bot :: "int bot" where
  "unknown_bot =
     TradingBot_init mock_env (str ''nosuch'') (str ''USD'') 60 (str ''trade_log.json'')"

text \<open>The mocked environment with a forecast provider that fails.\<close>

definition mock_env_no_forecast :: "int env" where
  "mock_env_no_forecast =
     mock_env\<lparr>pred_api := (\<lambda>h s. Inl (OtherError (str ''timed out'')))\<rparr>"

text \<open>The mocked environment with a price of zero in USD.\<close>

definition mock_env_zero_usd :: "int env" where
  "mock_env_zero_usd =
     mock_env\<lparr>price_api := (\<lambda>h cid vs. if vs = str ''usd'' then Inr 0 else Inr 480000)\<rparr>"

text \<open>The mocked environment with a feed parser that raises, and with an untitled entry.\<close>

definition mock_env_feed_down :: "int env" where
  "mock_env_feed_down =
     mock_env\<lparr>feed_api := (\<lambda>h. Inl (OtherError (str ''connection reset'')))\<rparr>"

definition mock_env_untitled :: "int env" where
  "mock_env_untitled = mock_env\<lparr>feed_api := (\<lambda>h. Inr [Some (str ''A''), None])\<rparr>"

section \<open>How the operations extend the history\<close>

lemma quiet_refl: "quiet h h"
  by (simp add: quiet_def)

lemma quiet_trans: "quiet h h1 \<Longrightarrow> quiet h1 h2 \<Longrightarrow> quiet h h2"
  by (auto simp: quiet_def)

lemma quiet_net: "quiet h (h @ [Net r])"
  by (simp add: quiet_def)

lemma bind_io_cases:
  assumes "bind_io m k s = (r, s')"
  obtains (err) e where "m s = (Inl e, s')" and "r = Inl e"
        | (ok) x s1 where "m s = (Inr x, s1)" and "k x s1 = (r, s')"
  using assms by (auto simp: bind_io_def split: prod.splits sum.splits)

lemma get_price_quiet: "get_price E symb vs h = (r, h') \<Longrightarrow> quiet h h'"
  by (auto simp: get_price_def Let_def quiet_refl quiet_net split: if_splits)

lemma get_history_quiet: "get_history E symb vs d h = (r, h') \<Longrightarrow> quiet h h'"
  by (auto simp: get_history_def Let_def quiet_net)

lemma latest_news_quiet: "latest_news E limit h = (r, h') \<Longrightarrow> quiet h h'"
  by (auto simp: latest_news_def bind_io_def Let_def return_io_def raise_io_def quiet_net
      split: sum.splits if_splits)

lemma get_prediction_try_quiet:
  assumes "get_prediction_try E symb vs h = (r, h')"
  shows "quiet h h'"
proof -
  from assms show ?thesis
    unfolding get_prediction_try_def
  proof (cases rule: bind_io_cases)
    case (err e)
    then show ?thesis by (auto simp: quiet_net)
  next
    case (ok pred_usd h1)
    then have q1: "quiet h h1" by (auto simp: quiet_net)
    show ?thesis
    proof (cases "str_upper E vs = str ''USD''")
      case True
      with ok(2) q1 show ?thesis by (simp add: return_io_def)
    next
      case False
      with ok(2) have "bind_io (get_price E symb vs) (\<lambda>cur_vs.
            bind_io (get_price E symb (str ''USD'')) (\<lambda>cur_usd.
              return_io (if float_truthy E cur_usd
                         then Some (float_mul E (float_div E pred_usd cur_usd) cur_vs)
                         else None))) h1 = (r, h')" by simp
      then show ?thesis
      proof (cases rule: bind_io_cases)
        case (err e)
        with q1 show ?thesis by (blast intro: quiet_trans get_price_quiet)
      next
        case (ok cur_vs h2)
        then have q2: "quiet h h2" using q1 by (blast intro: quiet_trans get_price_quiet)
        from ok(2) show ?thesis
        proof (cases rule: bind_io_cases)
          case (err e)
          with q2 show ?thesis by (blast intro: quiet_trans get_price_quiet)
        next
          case (ok cur_usd h3)
          then have "quiet h h3" using q2 by (blast intro: quiet_trans get_price_quiet)
          with ok(2) show ?thesis by (simp add: return_io_def)
        qed
      qed
    qed
  qed
qed

lemma get_prediction_quiet: "get_prediction E symb vs h = (r, h') \<Longrightarrow> quiet h h'"
  by (auto simp: get_prediction_def split: prod.splits sum.splits dest: get_prediction_try_quiet)

lemma groq_decision_quiet:
  "groq_decision E news price pred recent coin vs h = (r, h') \<Longrightarrow> quiet h h'"
  by (auto simp: groq_decision_def Let_def bind_io_def return_io_def raise_io_def quiet_refl
      quiet_net split: if_splits sum.splits list.splits option.splits)

lemma with_bot_eq:
  "with_bot f (b, h) = (r, s') \<longleftrightarrow> (\<exists>h'. f b h = (r, h') \<and> s' = (b, h'))"
  by (auto simp: with_bot_def split: prod.splits)

section \<open>Decision engine: properties\<close>

lemma mock_key: "getenv_GROQ_API_KEY mock_env = None"
  by (simp add: mock_env_def)

text \<open>
  Claim C3. When the environment variable is unset, empty or equal to the placeholder,
  \<open>groq_decision\<close> returns the decision HOLD with the composed prompt and the fixed
  diagnostic text, for all other inputs, and the history is returned as it was: no request
  was made.
\<close>

theorem groq_decision_without_key:
  assumes "getenv_GROQ_API_KEY E = None \<or> getenv_GROQ_API_KEY E = Some []
           \<or> getenv_GROQ_API_KEY E = Some KEY_PLACEHOLDER"
  shows "groq_decision E news price prediction recent coin vs h =
           (Inr (str ''HOLD'', prompt_of E news price prediction recent coin vs, KEY_MISSING), h)"
  using assms by (auto simp: groq_decision_def GROQ_API_KEY_def return_io_def)

theorem groq_decision_without_key_witness:
  "getenv_GROQ_API_KEY mock_env = None \<and>
   groq_decision mock_env [str ''A'', str ''B''] 523000 (Some 550000) [500000, 510000, 520000]
       (str ''XRP'') (str ''USD'') [Sleep 60] =
     (Inr (str ''HOLD'',
           prompt_of mock_env [str ''A'', str ''B''] 523000 (Some 550000)
             [500000, 510000, 520000] (str ''XRP'') (str ''USD''),
           KEY_MISSING), [Sleep 60])"
  using groq_decision_without_key [of mock_env] by (simp add: mock_key)

subsection \<open>The prompt\<close>

lemma join_append:
  "join sep (xs @ y # ys) =
     (if xs = [] then [] else join sep xs @ sep) @ y @ (if ys = [] then [] else sep @ join sep ys)"
proof (induction sep xs rule: join.induct)
  case (1 sep)
  then show ?case by (cases ys) simp_all
next
  case (2 sep x)
  then show ?case by (cases ys) simp_all
next
  case (3 sep x z zs)
  then show ?case by simp
qed

lemma has_lineI: "text = pre @ [10] @ l @ [10] @ post \<Longrightarrow> has_line text l"
  by (auto simp: has_line_def)

lemma bullet_line:
  assumes "x \<in> set news"
  shows "has_line (hd0 @ [10] @ join [10] (map f news) @ [10, 10] @ rest) (f x)"
proof -
  from assms obtain a b where ab: "news = a @ x # b"
    by (auto dest: split_list)
  let ?pre = "hd0 @ (if a = [] then [] else [10] @ join [10] (map f a))"
  let ?post = "(if b = [] then [] else join [10] (map f b) @ [10]) @ [10] @ rest"
  have "hd0 @ [10] @ join [10] (map f news) @ [10, 10] @ rest = ?pre @ [10] @ f x @ [10] @ ?post"
    by (simp add: ab join_append)
  then show ?thesis by (rule has_lineI)
qed

lemma groq_decision_prompt:
  assumes "fst (groq_decision E news price forecast recent coin vs h) = Inr (d, p, raw)"
  shows "p = prompt_of E news price forecast recent coin vs"
  using assms
  by (auto simp: groq_decision_def Let_def bind_io_def return_io_def raise_io_def
      split: if_splits sum.splits list.splits option.splits prod.splits)


lemma str_append: "str (a @ b) = str a @ str b"
  by (simp add: str_def)

text \<open>
  Claim C4. Whenever \<open>groq_decision\<close> returns, the prompt it returns is one fixed
  function of the six inputs (and of the runtime's number formatting), whatever the
  history, the key or the service's reply: a header, each headline on a bulleted line of
  its own, the current price line, the forecast line with the forecast to six decimals or
  N/A, the recent prices to six decimals joined by comma and space, and at the end the
  instruction line. The specification's scenario is the witness below.
\<close>

theorem prompt_composition:
  assumes "fst (groq_decision E news price forecast recent coin vs h) = Inr (d, p, raw)"
  shows "p = str ''News Headlines:'' @ [10] @
             join [10] (map (\<lambda>x. str ''- '' @ x) news) @ [10, 10] @
             (str ''Current Price '' @ coin @ str ''/'' @ vs @ str '': '' @ float_str E price) @ [10] @
             (str ''7'' @ [8209] @ str ''day Forecast: '' @
                (case forecast of Some f \<Rightarrow> float_fmt6 E f | None \<Rightarrow> str ''N/A'')) @ [10] @
             (str ''Recent Hourly Prices: '' @ join (str '', '') (map (float_fmt6 E) recent)) @
             [10, 10] @
             str ''Respond with BUY, SELL, or HOLD (one word).''
         \<and> (\<forall>x\<in>set news. has_line p (str ''- '' @ x))
         \<and> has_line p (str ''Current Price '' @ coin @ str ''/'' @ vs @ str '': '' @ float_str E price)
         \<and> has_line p (str ''7'' @ [8209] @ str ''day Forecast: '' @
                (case forecast of Some f \<Rightarrow> float_fmt6 E f | None \<Rightarrow> str ''N/A''))
         \<and> has_line p (str ''Recent Hourly Prices: '' @
                join (str '', '') (map (float_fmt6 E) recent))
         \<and> ends_with_line p (str ''Respond with BUY, SELL, or HOLD (one word).'')"
proof -
  let ?bul = "join [10] (map (\<lambda>x. str ''- '' @ x) news)"
  let ?l1 = "str ''Current Price '' @ coin @ str ''/'' @ vs @ str '': '' @ float_str E price"
  let ?l2 = "str ''7'' @ [8209] @ str ''day Forecast: '' @
               (case forecast of Some f \<Rightarrow> float_fmt6 E f | None \<Rightarrow> str ''N/A'')"
  let ?l3 = "str ''Recent Hourly Prices: '' @ join (str '', '') (map (float_fmt6 E) recent)"
  let ?ins = "str ''Respond with BUY, SELL, or HOLD (one word).''"
  have p: "p = prompt_of E news price forecast recent coin vs"
    using assms by (rule groq_decision_prompt)
  have eq: "p = str ''News Headlines:'' @ [10] @ ?bul @ [10, 10] @ ?l1 @ [10] @ ?l2 @ [10] @ ?l3 @
              [10, 10] @ ?ins"
    by (simp add: p prompt_of_def pred_text_def recent_line_def INSTRUCTION_def)
  have bullets: "\<forall>x\<in>set news. has_line p (str ''- '' @ x)"
  proof
    fix x assume "x \<in> set news"
    then have "has_line (str ''News Headlines:'' @ [10] @ ?bul @ [10, 10] @
                  (?l1 @ [10] @ ?l2 @ [10] @ ?l3 @ [10, 10] @ ?ins)) (str ''- '' @ x)"
      by (rule bullet_line)
    then show "has_line p (str ''- '' @ x)" by (simp add: eq)
  qed
  have "p = (str ''News Headlines:'' @ [10] @ ?bul @ [10]) @ [10] @ ?l1 @ [10] @
              (?l2 @ [10] @ ?l3 @ [10, 10] @ ?ins)"
    by (simp add: eq)
  then have l1: "has_line p ?l1" by (rule has_lineI)
  have "p = (str ''News Headlines:'' @ [10] @ ?bul @ [10, 10] @ ?l1) @ [10] @ ?l2 @ [10] @
              (?l3 @ [10, 10] @ ?ins)"
    by (simp add: eq)
  then have l2: "has_line p ?l2" by (rule has_lineI)
  have "p = (str ''News Headlines:'' @ [10] @ ?bul @ [10, 10] @ ?l1 @ [10] @ ?l2) @ [10] @ ?l3 @
              [10] @ ([10] @ ?ins)"
    by (simp add: eq)
  then have l3: "has_line p ?l3" by (rule has_lineI)
  have "p = (str ''News Headlines:'' @ [10] @ ?bul @ [10, 10] @ ?l1 @ [10] @ ?l2 @ [10] @ ?l3 @
              [10]) @ [10] @ ?ins"
    by (simp add: eq)
  then have l4: "ends_with_line p ?ins" by (auto simp: ends_with_line_def)
  from eq bullets l1 l2 l3 l4 show ?thesis by blast
qed

lemma mock_float_str: "float_str mock_env 523000 = str ''0.523''"
  by (simp add: mock_env_def micro_str_def frac6_def digits.simps str_def)

lemma mock_float_fmt6: "float_fmt6 mock_env 550000 = str ''0.550000''"
  by (simp add: mock_env_def micro_fmt6_def frac6_def digits.simps str_def)

lemma mock_decision:
  "fst (groq_decision mock_env [str ''A'', str ''B''] 523000 (Some 550000)
          [500000, 510000, 520000] (str ''XRP'') (str ''USD'') []) =
     Inr (str ''HOLD'',
          prompt_of mock_env [str ''A'', str ''B''] 523000 (Some 550000)
            [500000, 510000, 520000] (str ''XRP'') (str ''USD''),
          KEY_MISSING)"
  by (simp add: groq_decision_def GROQ_API_KEY_def return_io_def mock_env_def)

theorem prompt_composition_witness:
  "fst (groq_decision mock_env [str ''A'', str ''B''] 523000 (Some 550000)
          [500000, 510000, 520000] (str ''XRP'') (str ''USD'') []) =
     Inr (str ''HOLD'',
          prompt_of mock_env [str ''A'', str ''B''] 523000 (Some 550000)
            [500000, 510000, 520000] (str ''XRP'') (str ''USD''),
          KEY_MISSING)
   \<and> has_line (prompt_of mock_env [str ''A'', str ''B''] 523000 (Some 550000)
            [500000, 510000, 520000] (str ''XRP'') (str ''USD'')) (str ''- '' @ str ''A'')
   \<and> has_line (prompt_of mock_env [str ''A'', str ''B''] 523000 (Some 550000)
            [500000, 510000, 520000] (str ''XRP'') (str ''USD'')) (str ''- '' @ str ''B'')
   \<and> has_line (prompt_of mock_env [str ''A'', str ''B''] 523000 (Some 550000)
            [500000, 510000, 520000] (str ''XRP'') (str ''USD''))
         (str ''Current Price XRP/USD: 0.523'')
   \<and> has_line (prompt_of mock_env [str ''A'', str ''B''] 523000 (Some 550000)
            [500000, 510000, 520000] (str ''XRP'') (str ''USD''))
         (str ''7'' @ [8209] @ str ''day Forecast: 0.550000'')
   \<and> ends_with_line (prompt_of mock_env [str ''A'', str ''B''] 523000 (Some 550000)
            [500000, 510000, 520000] (str ''XRP'') (str ''USD''))
         (str ''Respond with BUY, SELL, or HOLD (one word).'')"
proof -
  let ?P = "prompt_of mock_env [str ''A'', str ''B''] 523000 (Some 550000)
            [500000, 510000, 520000] (str ''XRP'') (str ''USD'')"
  note t = prompt_composition [OF mock_decision]
  have l1: "str ''Current Price '' @ str ''XRP'' @ str ''/'' @ str ''USD'' @ str '': '' @
              float_str mock_env 523000 = str ''Current Price XRP/USD: 0.523''"
    by (simp add: mock_float_str) (simp add: str_def)
  have l2: "str ''7'' @ [8209] @ str ''day Forecast: '' @
              (case Some (550000::int) of Some f \<Rightarrow> float_fmt6 mock_env f | None \<Rightarrow> str ''N/A'') =
            str ''7'' @ [8209] @ str ''day Forecast: 0.550000''"
    by (simp add: mock_float_fmt6) (simp add: str_def)
  from t have bul: "\<forall>x\<in>set [str ''A'', str ''B'']. has_line ?P (str ''- '' @ x)"
    by blast
  from bul have "has_line ?P (str ''- '' @ str ''A'')"
    by simp
  moreover from bul have "has_line ?P (str ''- '' @ str ''B'')"
    by simp
  moreover from t have "has_line ?P (str ''Current Price XRP/USD: 0.523'')"
    unfolding l1 by blast
  moreover from t have "has_line ?P (str ''7'' @ [8209] @ str ''day Forecast: 0.550000'')"
    unfolding l2 by blast
  moreover from t have "ends_with_line ?P (str ''Respond with BUY, SELL, or HOLD (one word).'')"
    by blast
  ultimately show ?thesis using mock_decision by blast
qed

subsection \<open>Extracting the decision\<close>

lemma split_acc_Nil: "split_acc cur s = [] \<longleftrightarrow> cur = [] \<and> (\<forall>c\<in>set s. is_space c)"
  by (induction s arbitrary: cur) auto

lemma split_Nil: "split s = [] \<longleftrightarrow> (\<forall>c\<in>set s. is_space c)"
  by (simp add: split_def split_acc_Nil)

lemma dropWhile_keeps: "x \<in> set xs \<Longrightarrow> \<not> P x \<Longrightarrow> x \<in> set (dropWhile P xs)"
  by (induction xs) auto

lemma strip_all_space: "(\<forall>c\<in>set (strip s). is_space c) \<longleftrightarrow> (\<forall>c\<in>set s. is_space c)"
proof
  assume "\<forall>c\<in>set s. is_space c"
  then show "\<forall>c\<in>set (strip s). is_space c"
    by (auto simp: strip_def dest!: set_dropWhileD)
next
  assume a: "\<forall>c\<in>set (strip s). is_space c"
  show "\<forall>c\<in>set s. is_space c"
  proof (rule ccontr)
    assume "\<not> (\<forall>c\<in>set s. is_space c)"
    then obtain x where x: "x \<in> set s" "\<not> is_space x" by blast
    then have "x \<in> set (dropWhile is_space s)" by (rule dropWhile_keeps)
    then have "x \<in> set (rev (dropWhile is_space s))" by simp
    then have "x \<in> set (dropWhile is_space (rev (dropWhile is_space s)))"
      using x(2) by (rule dropWhile_keeps)
    then have "x \<in> set (strip s)" by (simp add: strip_def)
    with a x(2) show False by blast
  qed
qed

lemma key_configured:
  assumes "getenv_GROQ_API_KEY E = Some k" and "k \<noteq> []" and "k \<noteq> KEY_PLACEHOLDER"
  shows "GROQ_API_KEY E = k"
  using assms by (simp add: GROQ_API_KEY_def)

text \<open>
  Claim C10. With a key configured and a reply whose first choice has the content
  \<open>content\<close>, \<open>groq_decision\<close> makes one request and then: if the content is empty or all
  whitespace, taking the first token raises \<open>IndexError\<close> and no decision is returned;
  otherwise the content has a first token, and the decision is that token upper-cased.
\<close>

theorem groq_decision_needs_token:
  assumes "getenv_GROQ_API_KEY E = Some k" and "k \<noteq> []" and "k \<noteq> KEY_PLACEHOLDER"
    and "chat_api E h k (prompt_of E news price forecast recent coin vs) = Inr (Some content # others)"
  shows "snd (groq_decision E news price forecast recent coin vs h) =
           h @ [Net (ChatReq k (prompt_of E news price forecast recent coin vs))]
       \<and> ((\<forall>c\<in>set content. is_space c) \<longrightarrow>
            fst (groq_decision E news price forecast recent coin vs h) = Inl IndexError)
       \<and> ((\<exists>c\<in>set content. \<not> is_space c) \<longrightarrow>
            (\<exists>tok rest. split (strip content) = tok # rest \<and>
               fst (groq_decision E news price forecast recent coin vs h) =
                 Inr (str_upper E tok, prompt_of E news price forecast recent coin vs,
                      strip content)))"
proof -
  have key: "GROQ_API_KEY E = k" using assms(1-3) by (rule key_configured)
  have nil: "split (strip content) = [] \<longleftrightarrow> (\<forall>c\<in>set content. is_space c)"
    by (simp add: split_Nil strip_all_space)
  show ?thesis
  proof (cases "split (strip content)")
    case Nil
    with nil have "\<forall>c\<in>set content. is_space c" by simp
    with Nil key assms(2-4) show ?thesis
      by (simp add: groq_decision_def Let_def bind_io_def raise_io_def)
  next
    case (Cons tok rest)
    with nil have "\<exists>c\<in>set content. \<not> is_space c" by simp
    with Cons key assms(2-4) show ?thesis
      by (simp add: groq_decision_def Let_def bind_io_def return_io_def)
  qed
qed

lemma mock_env_key_getenv: "getenv_GROQ_API_KEY (mock_env_key r) = Some (str ''gsk_test'')"
  by (simp add: mock_env_key_def)

lemma mock_env_key_chat: "chat_api (mock_env_key r) h k p = Inr [Some r]"
  by (simp add: mock_env_key_def)

lemma mock_env_key_upper: "str_upper (mock_env_key r) = ascii_upper"
  by (simp add: mock_env_key_def mock_env_def)

lemma test_key_ok: "str ''gsk_test'' \<noteq> [] \<and> str ''gsk_test'' \<noteq> KEY_PLACEHOLDER"
  by (simp add: str_def KEY_PLACEHOLDER_def)

theorem groq_decision_needs_token_witness:
  "getenv_GROQ_API_KEY (mock_env_key (str ''  '')) = Some (str ''gsk_test'')
   \<and> str ''gsk_test'' \<noteq> [] \<and> str ''gsk_test'' \<noteq> KEY_PLACEHOLDER
   \<and> fst (groq_decision (mock_env_key (str ''  '')) [str ''A''] 523000 None []
           (str ''XRP'') (str ''USD'') []) = Inl IndexError
   \<and> fst (groq_decision (mock_env_key (str ''buy now'')) [str ''A''] 523000 None []
           (str ''XRP'') (str ''USD'') []) =
       Inr (str ''BUY'',
            prompt_of (mock_env_key (str ''buy now'')) [str ''A''] 523000 None []
              (str ''XRP'') (str ''USD''),
            str ''buy now'')"
proof -
  have sp: "\<forall>c\<in>set (str ''  ''). is_space c"
    by (simp add: str_def is_space_def)
  have ns: "\<exists>c\<in>set (str ''buy now''). \<not> is_space c"
    by (simp add: str_def is_space_def)
  have st: "strip (str ''buy now'') = str ''buy now''"
    by (simp add: strip_def str_def is_space_def)
  have tok: "split (str ''buy now'') = [str ''buy'', str ''now'']"
    by (simp add: split_def str_def is_space_def)
  have up: "ascii_upper (str ''buy'') = str ''BUY''"
    by (simp add: ascii_upper_def str_def)
  note a = groq_decision_needs_token [where E = "mock_env_key (str ''  '')" and h = "[]"
      and news = "[str ''A'']" and price = 523000 and forecast = None and recent = "[]"
      and coin = "str ''XRP''" and vs = "str ''USD''",
      OF mock_env_key_getenv test_key_ok [THEN conjunct1] test_key_ok [THEN conjunct2]
      mock_env_key_chat]
  note b = groq_decision_needs_token [where E = "mock_env_key (str ''buy now'')" and h = "[]"
      and news = "[str ''A'']" and price = 523000 and forecast = None and recent = "[]"
      and coin = "str ''XRP''" and vs = "str ''USD''",
      OF mock_env_key_getenv test_key_ok [THEN conjunct1] test_key_ok [THEN conjunct2]
      mock_env_key_chat]
  from a sp have 1: "fst (groq_decision (mock_env_key (str ''  '')) [str ''A''] 523000 None []
           (str ''XRP'') (str ''USD'') []) = Inl IndexError" by blast
  from b ns have 2: "fst (groq_decision (mock_env_key (str ''buy now'')) [str ''A''] 523000 None []
           (str ''XRP'') (str ''USD'') []) =
       Inr (str ''BUY'',
            prompt_of (mock_env_key (str ''buy now'')) [str ''A''] 523000 None []
              (str ''XRP'') (str ''USD''),
            str ''buy now'')"
    by (auto simp: st tok up mock_env_key_upper)
  from 1 2 sp ns mock_env_key_getenv test_key_ok show ?thesis by blast
qed

section \<open>One turn of the loop\<close>

lemma publish_eq:
  "publish E price pred decision prompt ai_raw news (b, h) =
     (Inr (),
      (b\<lparr>snap := new_snap E b (h @ [Acquire]) price pred decision prompt ai_raw news,
         bot_log := bot_log b @ [new_snap E b (h @ [Acquire]) price pred decision prompt ai_raw news]\<rparr>,
       h @ [Acquire, FileWrite (log_file b)] @
       (case file_write E (h @ [Acquire]) (log_file b)
               (bot_log b @ [new_snap E b (h @ [Acquire]) price pred decision prompt ai_raw news]) of
          None \<Rightarrow> [] | Some e \<Rightarrow> [Print e]) @ [Release]))"
  by (simp add: publish_def save_log_def Let_def split: option.splits)

lemma with_bot_quiet:
  assumes "with_bot f (b, h) = (r, (b', h'))" and "\<And>r h'. f b h = (r, h') \<Longrightarrow> quiet h h'"
  shows "b' = b \<and> quiet h h'"
  using assms by (auto simp: with_bot_eq)

lemma run_try_cases:
  assumes "run_try E (b, h) = (r, (b', h'))"
  shows "(\<exists>e. r = Inl e \<and> b' = b \<and> quiet h h') \<or>
         (\<exists>price pred decision prompt ai_raw news h1.
            quiet h h1 \<and>
            publish E price pred decision prompt ai_raw news (b, h1) = (r, (b', h')))"
  using assms unfolding run_try_def
proof (cases rule: bind_io_cases)
  case (err e)
  then show ?thesis by (auto simp: with_bot_eq dest: get_price_quiet)
next
  case (ok price s1)
  then obtain h1 where s1: "s1 = (b, h1)" and q1: "quiet h h1"
    by (auto simp: with_bot_eq dest: get_price_quiet)
  from ok(2) show ?thesis unfolding s1
  proof (cases rule: bind_io_cases)
    case (err e)
    then show ?thesis using q1 by (auto simp: with_bot_eq dest: get_history_quiet quiet_trans)
  next
    case (ok hist_all s2)
    then obtain h2 where s2: "s2 = (b, h2)" and q2: "quiet h h2"
      using q1 by (auto simp: with_bot_eq dest: get_history_quiet quiet_trans)
    from ok(2) show ?thesis unfolding s2
    proof (cases rule: bind_io_cases)
      case (err e)
      then show ?thesis using q2 by (auto simp: with_bot_eq dest: latest_news_quiet quiet_trans)
    next
      case (ok news s3)
      then obtain h3 where s3: "s3 = (b, h3)" and q3: "quiet h h3"
        using q2 by (auto simp: with_bot_eq dest: latest_news_quiet quiet_trans)
      from ok(2) show ?thesis unfolding s3
      proof (cases rule: bind_io_cases)
        case (err e)
        then show ?thesis by (auto simp: with_bot_eq split: prod.splits)
      next
        case (ok pred s4)
        then obtain h4 where s4: "s4 = (b, h4)" and q4: "quiet h h4"
          using q3 by (auto simp: with_bot_eq split: prod.splits
              dest: get_prediction_quiet quiet_trans)
        from ok(2) show ?thesis unfolding s4
        proof (cases rule: bind_io_cases)
          case (err e)
          then show ?thesis using q4
            by (auto simp: with_bot_eq dest: groq_decision_quiet quiet_trans)
        next
          case (ok d s5)
          then obtain h5 where s5: "s5 = (b, h5)" and q5: "quiet h h5"
            using q4 by (auto simp: with_bot_eq dest: groq_decision_quiet quiet_trans)
          obtain decision prompt ai_raw where d: "d = (decision, prompt, ai_raw)"
            by (cases d) auto
          from ok(2) have "publish E price pred decision prompt ai_raw news (b, h5) = (r, (b', h'))"
            by (simp add: d s5)
          with q5 show ?thesis by blast
        qed
      qed
    qed
  qed
qed

lemma run_cycle_cases:
  obtains (failed) e evs where "list_all is_net evs"
      and "run_try E (b, h) = (Inl e, (b, h @ evs))"
      and "run_cycle E (b, h) = (b, h @ evs @ [Print e, Sleep (max 5 (bot_interval b))])"
  | (published) price pred decision prompt ai_raw news evs pr S
    where "list_all is_net evs"
      and "S = new_snap E b (h @ evs @ [Acquire]) price pred decision prompt ai_raw news"
      and "pr = (case file_write E (h @ evs @ [Acquire]) (log_file b) (bot_log b @ [S]) of
                   None \<Rightarrow> [] | Some e \<Rightarrow> [Print e])"
      and "run_try E (b, h) =
             (Inr (), (b\<lparr>snap := S, bot_log := bot_log b @ [S]\<rparr>,
                       h @ evs @ [Acquire, FileWrite (log_file b)] @ pr @ [Release]))"
      and "run_cycle E (b, h) =
             (b\<lparr>snap := S, bot_log := bot_log b @ [S]\<rparr>,
              h @ evs @ [Acquire, FileWrite (log_file b)] @ pr @
                [Release, Sleep (max 5 (bot_interval b))])"
proof -
  obtain r b' h' where rt: "run_try E (b, h) = (r, (b', h'))"
    by (metis surj_pair)
  from run_try_cases [OF rt] show thesis
  proof (elim disjE exE conjE)
    fix e assume r: "r = Inl e" and b': "b' = b" and q: "quiet h h'"
    from q obtain evs where evs: "h' = h @ evs" "list_all is_net evs"
      by (auto simp: quiet_def)
    have c: "run_cycle E (b, h) = (b, h @ evs @ [Print e, Sleep (max 5 (bot_interval b))])"
      by (simp add: run_cycle_def rt r b' evs)
    have t: "run_try E (b, h) = (Inl e, (b, h @ evs))"
      by (simp add: rt r b' evs)
    show thesis by (rule failed [OF evs(2) t c])
  next
    fix price pred decision prompt ai_raw news h1
    assume q: "quiet h h1"
      and pub: "publish E price pred decision prompt ai_raw news (b, h1) = (r, (b', h'))"
    from q obtain evs where evs: "h1 = h @ evs" "list_all is_net evs"
      by (auto simp: quiet_def)
    define S where "S = new_snap E b (h @ evs @ [Acquire]) price pred decision prompt ai_raw news"
    define pr where "pr = (case file_write E (h @ evs @ [Acquire]) (log_file b) (bot_log b @ [S]) of
                   None \<Rightarrow> [] | Some e \<Rightarrow> [Print e])"
    have "publish E price pred decision prompt ai_raw news (b, h1) =
            (Inr (), (b\<lparr>snap := S, bot_log := bot_log b @ [S]\<rparr>,
                      h @ evs @ [Acquire, FileWrite (log_file b)] @ pr @ [Release]))"
      unfolding publish_eq evs S_def pr_def by simp
    with pub have r: "r = Inr ()"
      and b': "b' = b\<lparr>snap := S, bot_log := bot_log b @ [S]\<rparr>"
      and h': "h' = h @ evs @ [Acquire, FileWrite (log_file b)] @ pr @ [Release]"
      by simp_all
    have c: "run_cycle E (b, h) =
             (b\<lparr>snap := S, bot_log := bot_log b @ [S]\<rparr>,
              h @ evs @ [Acquire, FileWrite (log_file b)] @ pr @
                [Release, Sleep (max 5 (bot_interval b))])"
      by (simp add: run_cycle_def rt r b' h')
    have t: "run_try E (b, h) =
             (Inr (), (b\<lparr>snap := S, bot_log := bot_log b @ [S]\<rparr>,
                       h @ evs @ [Acquire, FileWrite (log_file b)] @ pr @ [Release]))"
      using rt r b' h' by simp
    show thesis by (rule published [OF evs(2) S_def pr_def t c])
  qed
qed

subsection \<open>Evaluating the mocked environment\<close>

lemmas mock_defs = mock_env_def mock_bot_def TradingBot_init_def ascii_upper_def ascii_lower_def
  str_def

lemmas cycle_defs = run_cycle_def run_try_def bind_io_def with_bot_def return_io_def raise_io_def
  get_price_def get_history_def latest_news_def get_prediction_def get_prediction_try_def
  groq_decision_def GROQ_API_KEY_def KEY_PLACEHOLDER_def publish_def save_log_def slice_to_def
  last6_def Let_def

subsection \<open>The wait and the failure policy\<close>

lemma net_not_sleep: "list_all is_net evs \<Longrightarrow> Sleep n \<notin> set evs"
  by (induction evs) auto

text \<open>
  Claim C7. \<open>configure\<close> stores an interval of at least 5, and every turn of the loop,
  successful or not, ends with its only sleep, of \<open>max(5, interval)\<close> seconds; the turn
  itself does not change the interval.
\<close>

theorem interval_floor:
  "5 \<le> bot_interval (fst (configure E coin vs interval s))
   \<and> (\<exists>evs. snd (run_cycle E (b, h)) = h @ evs @ [Sleep (max 5 (bot_interval b))]
             \<and> (\<forall>n. Sleep n \<notin> set evs))
   \<and> bot_interval (fst (run_cycle E (b, h))) = bot_interval b"
proof -
  have c: "5 \<le> bot_interval (fst (configure E coin vs interval s))"
    by (cases s) (simp add: configure_def)
  have "(\<exists>evs. snd (run_cycle E (b, h)) = h @ evs @ [Sleep (max 5 (bot_interval b))]
             \<and> (\<forall>n. Sleep n \<notin> set evs))
        \<and> bot_interval (fst (run_cycle E (b, h))) = bot_interval b"
  proof (cases rule: run_cycle_cases [of E b h])
    case (failed e evs)
    have "snd (run_cycle E (b, h)) = h @ (evs @ [Print e]) @ [Sleep (max 5 (bot_interval b))]"
      by (simp add: failed(3))
    moreover have "\<forall>n. Sleep n \<notin> set (evs @ [Print e])"
      using failed(1) by (auto dest: net_not_sleep)
    ultimately show ?thesis using failed(3) by (metis fst_conv)
  next
    case (published price pred decision prompt ai_raw news evs pr S)
    have pr: "\<forall>n. Sleep n \<notin> set pr"
      by (simp add: published(3) split: option.splits)
    have "snd (run_cycle E (b, h)) =
            h @ (evs @ [Acquire, FileWrite (log_file b)] @ pr @ [Release]) @
            [Sleep (max 5 (bot_interval b))]"
      by (simp add: published(5))
    moreover have "\<forall>n. Sleep n \<notin> set (evs @ [Acquire, FileWrite (log_file b)] @ pr @ [Release])"
      using published(1) pr by (auto dest: net_not_sleep)
    moreover have "bot_interval (fst (run_cycle E (b, h))) = bot_interval b"
      by (simp add: published(5))
    ultimately show ?thesis by blast
  qed
  with c show ?thesis by blast
qed

theorem interval_floor_witness:
  "5 \<le> bot_interval (fst (configure mock_env (str ''btc'') (str ''eur'') 1 (mock_bot, [])))
   \<and> bot_interval (fst (run_cycle mock_env (mock_bot, []))) = 60"
  using interval_floor [of mock_env "str ''btc''" "str ''eur''" 1 "(mock_bot, [])" mock_bot "[]"]
  by (simp add: mock_bot_def TradingBot_init_def)

text \<open>
  Claim C2, as stated, fails for an exception raised while the log is saved during publish:
  \<open>save_log\<close> catches it, and the turn has published by then. With a log file that cannot
  be written, the exception is raised and printed, and the snapshot and the log have
  changed.
\<close>

theorem publish_exception_counterexample:
  "file_write mock_env_disk_full
     [Net (PriceReq (str ''ripple'') (str ''usd'')), Net (ChartReq (Some (str ''ripple'')) (str ''usd'') 1),
      Net FeedReq, Net (PredReq (str ''xrp'')), Acquire]
     (log_file mock_bot) (bot_log (fst (run_cycle mock_env_disk_full (mock_bot, [])))) =
     Some (OtherError (str ''disk full''))
   \<and> snd (run_cycle mock_env_disk_full (mock_bot, [])) =
     [Net (PriceReq (str ''ripple'') (str ''usd'')), Net (ChartReq (Some (str ''ripple'')) (str ''usd'') 1),
      Net FeedReq, Net (PredReq (str ''xrp'')), Acquire, FileWrite (str ''trade_log.json''),
      Print (OtherError (str ''disk full'')), Release, Sleep 60]
   \<and> snap (fst (run_cycle mock_env_disk_full (mock_bot, []))) \<noteq> snap mock_bot
   \<and> length (bot_log (fst (run_cycle mock_env_disk_full (mock_bot, [])))) =
       length (bot_log mock_bot) + 1"
  by (simp add: cycle_defs mock_defs mock_env_disk_full_def new_snap_def)

text \<open>
  Claim C2, amended. When an exception leaves the body of the \<open>try\<close> (it can come from
  \<open>get_price\<close>, \<open>get_history\<close>, \<open>latest_news\<close> or \<open>groq_decision\<close>), the turn
  leaves the bot as it was, snapshot and log included, takes no lock, adds to the history
  only the requests made so far, the printed exception and the sleep, and the loop goes
  on with the next turn.
\<close>

theorem failed_cycle_changes_nothing:
  assumes "fst (run_try E (b, h)) = Inl e"
  shows "fst (run_cycle E (b, h)) = b
       \<and> (\<exists>evs. list_all is_net evs \<and>
             snd (run_cycle E (b, h)) = h @ evs @ [Print e, Sleep (max 5 (bot_interval b))])
       \<and> run E (Suc n) (b, h) = run E n (b, snd (run_cycle E (b, h)))"
proof (cases rule: run_cycle_cases [of E b h])
  case (failed e' evs)
  with assms have "e' = e" by simp
  with failed show ?thesis by auto
next
  case (published price pred decision prompt ai_raw news evs pr S)
  with assms show ?thesis by simp
qed

theorem failed_cycle_changes_nothing_witness:
  "fst (run_try mock_env (unknown_bot, [])) = Inl (ValueError (str ''Unknown symbol NOSUCH''))
   \<and> fst (run_cycle mock_env (unknown_bot, [])) = unknown_bot
   \<and> snd (run_cycle mock_env (unknown_bot, [])) =
       [Print (ValueError (str ''Unknown symbol NOSUCH'')), Sleep 60]"
proof -
  have f: "fst (run_try mock_env (unknown_bot, [])) = Inl (ValueError (str ''Unknown symbol NOSUCH''))"
    by (simp add: cycle_defs mock_defs unknown_bot_def)
  have s: "snd (run_cycle mock_env (unknown_bot, [])) =
       [Print (ValueError (str ''Unknown symbol NOSUCH'')), Sleep 60]"
    by (simp add: cycle_defs mock_defs unknown_bot_def)
  from failed_cycle_changes_nothing [OF f, of 0] f s show ?thesis by simp
qed

section \<open>The snapshot and the log\<close>

lemma new_snap_no_status:
  "AList.delete ''status'' (new_snap E b h price pred decision prompt ai_raw news) =
     new_snap E b h price pred decision prompt ai_raw news"
  by (simp add: new_snap_def)

lemma cycle_ok_iff: "cycle_ok E s \<longleftrightarrow> (\<exists>u. fst (run_try E s) = Inr u)"
  by (simp add: cycle_ok_def split: sum.splits)

lemma run_cycle_log:
  "log_inv (fst (run_cycle E (b, h)))
   \<and> length (bot_log (fst (run_cycle E (b, h)))) =
       length (bot_log b) + (if cycle_ok E (b, h) then 1 else 0)"
  if "log_inv b"
proof (cases rule: run_cycle_cases [of E b h])
  case (failed e evs)
  with that show ?thesis by (simp add: cycle_ok_iff)
next
  case (published price pred decision prompt ai_raw news evs pr S)
  then show ?thesis by (simp add: cycle_ok_iff log_inv_def new_snap_no_status)
qed

lemma step_log:
  assumes "log_inv (fst s)"
  shows "log_inv (fst (step E x s))
       \<and> length (bot_log (fst (step E x s))) =
           length (bot_log (fst s)) + (if x = Cycle \<and> cycle_ok E s then 1 else 0)"
proof -
  obtain b h where s: "s = (b, h)" by (cases s)
  show ?thesis
  proof (cases x)
    case Cycle
    with assms run_cycle_log [of b E h] show ?thesis by (simp add: s)
  next
    case (Configure c v i)
    with assms show ?thesis
      by (simp add: s configure_def log_inv_def delete_update_same)
  next
    case Snapshot
    with assms show ?thesis by (simp add: s snapshot_def)
  next
    case ApiLog
    with assms show ?thesis by (simp add: s api_log_def)
  next
    case ApiHistory
    with assms show ?thesis by (simp add: s api_history_def split: prod.splits)
  qed
qed

lemma exec_log:
  "log_inv (fst s) \<Longrightarrow>
     log_inv (fst (exec E ops s))
     \<and> length (bot_log (fst (exec E ops s))) = length (bot_log (fst s)) + successes E ops s"
proof (induction ops arbitrary: s)
  case Nil
  then show ?case by simp
next
  case (Cons x xs)
  from step_log [OF Cons.prems, of E x]
  have 1: "log_inv (fst (step E x s))"
    and 2: "length (bot_log (fst (step E x s))) =
           length (bot_log (fst s)) + (if x = Cycle \<and> cycle_ok E s then 1 else 0)"
    by simp_all
  from Cons.IH [OF 1] 2 show ?case by simp
qed

text \<open>
  Claim C1, as stated, fails across \<open>configure\<close>: it writes \<open>status\<close> into the current
  snapshot, and the log holds a copy made before. After one successful turn and one
  \<open>configure\<close>, the log's last element is not the current snapshot.
\<close>

theorem log_last_after_configure_counterexample:
  "bot_log (fst (exec mock_env [Cycle, Configure (str ''btc'') (str ''eur'') 30] (mock_bot, []))) \<noteq> []
   \<and> last (bot_log (fst (exec mock_env [Cycle, Configure (str ''btc'') (str ''eur'') 30]
              (mock_bot, [])))) \<noteq>
       snap (fst (exec mock_env [Cycle, Configure (str ''btc'') (str ''eur'') 30] (mock_bot, [])))"
  by (simp add: cycle_defs mock_defs configure_def new_snap_def)

text \<open>
  Claim C1, amended. From a freshly constructed bot, after any sequence of turns of the
  loop and calls of \<open>configure\<close>, \<open>snapshot\<close> and the reading routes, the length of the
  log is the number of successful turns, and the log's last element, if there is one, is
  the current snapshot without the \<open>status\<close> entry that \<open>configure\<close> adds; so it is the
  current snapshot itself as long as that has no \<open>status\<close> entry.
\<close>

theorem log_tracks_snapshot:
  "length (bot_log (fst (exec E ops (TradingBot_init E coin vs interval file, h)))) =
     successes E ops (TradingBot_init E coin vs interval file, h)
   \<and> (bot_log (fst (exec E ops (TradingBot_init E coin vs interval file, h))) \<noteq> [] \<longrightarrow>
        last (bot_log (fst (exec E ops (TradingBot_init E coin vs interval file, h)))) =
          AList.delete ''status'' (snap (fst (exec E ops (TradingBot_init E coin vs interval file, h)))))
   \<and> (bot_log (fst (exec E ops (TradingBot_init E coin vs interval file, h))) \<noteq> [] \<and>
      ''status'' \<notin> fst ` set (snap (fst (exec E ops (TradingBot_init E coin vs interval file, h)))) \<longrightarrow>
        last (bot_log (fst (exec E ops (TradingBot_init E coin vs interval file, h)))) =
          snap (fst (exec E ops (TradingBot_init E coin vs interval file, h))))"
proof -
  let ?s0 = "(TradingBot_init E coin vs interval file, h)"
  have "log_inv (fst ?s0)" by (simp add: log_inv_def TradingBot_init_def)
  from exec_log [OF this, of E ops]
  have inv: "log_inv (fst (exec E ops ?s0))"
    and len: "length (bot_log (fst (exec E ops ?s0))) = successes E ops ?s0"
    by (simp_all add: TradingBot_init_def)
  from inv have a: "bot_log (fst (exec E ops ?s0)) \<noteq> [] \<longrightarrow>
        last (bot_log (fst (exec E ops ?s0))) = AList.delete ''status'' (snap (fst (exec E ops ?s0)))"
    by (auto simp: log_inv_def)
  have "''status'' \<notin> fst ` set (snap (fst (exec E ops ?s0))) \<Longrightarrow>
          AList.delete ''status'' (snap (fst (exec E ops ?s0))) = snap (fst (exec E ops ?s0))"
    by (rule delete_id)
  with a len show ?thesis by auto
qed

theorem log_tracks_snapshot_witness:
  "bot_log (fst (exec mock_env [Cycle, Configure (str ''btc'') (str ''eur'') 30]
       (TradingBot_init mock_env (str ''XRP'') (str ''USD'') 60 (str ''trade_log.json''), []))) \<noteq> []
   \<and> last (bot_log (fst (exec mock_env [Cycle, Configure (str ''btc'') (str ''eur'') 30]
       (TradingBot_init mock_env (str ''XRP'') (str ''USD'') 60 (str ''trade_log.json''), [])))) =
       AList.delete ''status'' (snap (fst (exec mock_env [Cycle, Configure (str ''btc'') (str ''eur'') 30]
       (TradingBot_init mock_env (str ''XRP'') (str ''USD'') 60 (str ''trade_log.json''), []))))
   \<and> ''status'' \<notin> fst ` set (snap (fst (exec mock_env [Cycle]
       (TradingBot_init mock_env (str ''XRP'') (str ''USD'') 60 (str ''trade_log.json''), []))))
   \<and> last (bot_log (fst (exec mock_env [Cycle]
       (TradingBot_init mock_env (str ''XRP'') (str ''USD'') 60 (str ''trade_log.json''), [])))) =
       snap (fst (exec mock_env [Cycle]
       (TradingBot_init mock_env (str ''XRP'') (str ''USD'') 60 (str ''trade_log.json''), [])))"
proof -
  let ?s0 = "(TradingBot_init mock_env (str ''XRP'') (str ''USD'') 60 (str ''trade_log.json''), [])"
  have 1: "bot_log (fst (exec mock_env [Cycle, Configure (str ''btc'') (str ''eur'') 30] ?s0)) \<noteq> []"
    by (simp add: cycle_defs mock_defs configure_def)
  have 2: "bot_log (fst (exec mock_env [Cycle] ?s0)) \<noteq> []"
    by (simp add: cycle_defs mock_defs)
  have 3: "''status'' \<notin> fst ` set (snap (fst (exec mock_env [Cycle] ?s0)))"
    by (simp add: cycle_defs mock_defs new_snap_def)
  from log_tracks_snapshot [of mock_env "[Cycle, Configure (str ''btc'') (str ''eur'') 30]"
      "str ''XRP''" "str ''USD''" 60 "str ''trade_log.json''" "[]"]
    log_tracks_snapshot [of mock_env "[Cycle]"
      "str ''XRP''" "str ''USD''" 60 "str ''trade_log.json''" "[]"] 1 2 3
  show ?thesis by blast
qed

section \<open>The forecast\<close>

lemma get_prediction_try_fails:
  "fst (get_prediction_try E symb vs h) = Inl e \<Longrightarrow> fst (get_prediction E symb vs h) = None"
  by (cases "get_prediction_try E symb vs h") (simp add: get_prediction_def)

lemma get_prediction_provider_fails:
  "pred_api E h (str_lower E symb) = Inl e \<Longrightarrow>
     get_prediction E symb vs h = (None, h @ [Net (PredReq (str_lower E symb))])"
  by (simp add: get_prediction_def get_prediction_try_def bind_io_def)

lemma get_prediction_zero_usd:
  assumes "str_upper E vs \<noteq> str ''USD''"
    and "pred_api E h (str_lower E symb) = Inr pred_usd"
    and "get_price E symb vs (h @ [Net (PredReq (str_lower E symb))]) = (Inr cur_vs, h1)"
    and "get_price E symb (str ''USD'') h1 = (Inr cur_usd, h2)"
    and "\<not> float_truthy E cur_usd"
  shows "get_prediction E symb vs h = (None, h2)"
  using assms
  by (simp add: get_prediction_def get_prediction_try_def bind_io_def return_io_def)

lemma fst_InrD: "fst (f h) = Inr x \<Longrightarrow> \<exists>h'. f h = (Inr x, h')"
  by (cases "f h") simp

lemma cycle_without_forecast:
  assumes pred: "\<forall>h. \<exists>e. pred_api E h (str_lower E (bot_coin b)) = Inl e"
    and price: "\<forall>h. \<exists>p. fst (get_price E (bot_coin b) (bot_vs b) h) = Inr p"
    and hist: "\<forall>h. \<exists>xs. fst (get_history E (bot_coin b) (bot_vs b) 1 h) = Inr xs"
    and news: "\<forall>h. \<exists>ns. fst (latest_news E 5 h) = Inr ns"
    and dec: "\<forall>h ns p recent. \<exists>d.
                fst (groq_decision E ns p None recent (bot_coin b) (bot_vs b) h) = Inr d"
  shows "cycle_ok E (b, h)
       \<and> map_of (snap (fst (run_cycle E (b, h)))) ''prediction'' = Some PNone
       \<and> bot_log (fst (run_cycle E (b, h))) = bot_log b @ [snap (fst (run_cycle E (b, h)))]"
proof -
  from price obtain p where "fst (get_price E (bot_coin b) (bot_vs b) h) = Inr p"
    by blast
  then obtain h1 where 1: "get_price E (bot_coin b) (bot_vs b) h = (Inr p, h1)"
    by (blast dest: fst_InrD)
  from hist obtain xs where "fst (get_history E (bot_coin b) (bot_vs b) 1 h1) = Inr xs"
    by blast
  then obtain h2 where 2: "get_history E (bot_coin b) (bot_vs b) 1 h1 = (Inr xs, h2)"
    by (blast dest: fst_InrD)
  from news obtain ns where "fst (latest_news E 5 h2) = Inr ns"
    by blast
  then obtain h3 where 3: "latest_news E 5 h2 = (Inr ns, h3)"
    by (blast dest: fst_InrD)
  from pred obtain e where "pred_api E h3 (str_lower E (bot_coin b)) = Inl e"
    by blast
  then have 4: "get_prediction E (bot_coin b) (bot_vs b) h3 =
                  (None, h3 @ [Net (PredReq (str_lower E (bot_coin b)))])"
    by (rule get_prediction_provider_fails)
  from dec obtain t where
    "fst (groq_decision E ns p None (map snd (last6 xs)) (bot_coin b) (bot_vs b)
          (h3 @ [Net (PredReq (str_lower E (bot_coin b)))])) = Inr t"
    by blast
  then obtain h5 where
    5: "groq_decision E ns p None (map snd (last6 xs)) (bot_coin b) (bot_vs b)
          (h3 @ [Net (PredReq (str_lower E (bot_coin b)))]) = (Inr t, h5)"
    by (blast dest: fst_InrD)
  obtain d pm raw where t: "t = (d, pm, raw)" by (cases t)
  define S where "S = new_snap E b (h5 @ [Acquire]) p None d pm raw ns"
  have rt: "run_try E (b, h) = publish E p None d pm raw ns (b, h5)"
    by (simp add: run_try_def bind_io_def with_bot_def 1 2 3 4 5 t)
  then have ok: "cycle_ok E (b, h)"
    by (simp add: cycle_ok_def publish_eq)
  have "fst (run_cycle E (b, h)) = b\<lparr>snap := S, bot_log := bot_log b @ [S]\<rparr>"
    by (simp add: run_cycle_def rt publish_eq S_def)
  then have "snap (fst (run_cycle E (b, h))) = S"
    and "bot_log (fst (run_cycle E (b, h))) = bot_log b @ [S]"
    by simp_all
  moreover have "map_of S ''prediction'' = Some PNone"
    by (simp add: S_def new_snap_def)
  ultimately show ?thesis using ok by simp
qed

text \<open>
  Claim C5. \<open>get_prediction\<close> returns a float or \<open>None\<close> and never an exception: when the
  body of its \<open>try\<close> raises, whatever the cause, the result is \<open>None\<close>; so it is when the
  forecast provider fails (network error or missing field), and when the USD price used for
  the conversion is zero. A turn of the loop whose forecast provider fails, the other steps
  succeeding, is successful and publishes a snapshot whose prediction is \<open>None\<close>.
\<close>

theorem forecast_failure_is_absent:
  "(fst (get_prediction_try E symb vs h) = Inl e \<longrightarrow> fst (get_prediction E symb vs h) = None)
   \<and> (pred_api E h (str_lower E symb) = Inl e \<longrightarrow> fst (get_prediction E symb vs h) = None)
   \<and> (str_upper E vs \<noteq> str ''USD'' \<and> pred_api E h (str_lower E symb) = Inr pred_usd \<and>
      get_price E symb vs (h @ [Net (PredReq (str_lower E symb))]) = (Inr cur_vs, h1) \<and>
      get_price E symb (str ''USD'') h1 = (Inr cur_usd, h2) \<and> \<not> float_truthy E cur_usd \<longrightarrow>
        fst (get_prediction E symb vs h) = None)
   \<and> ((\<forall>h. \<exists>e. pred_api E h (str_lower E (bot_coin b)) = Inl e) \<and>
      (\<forall>h. \<exists>p. fst (get_price E (bot_coin b) (bot_vs b) h) = Inr p) \<and>
      (\<forall>h. \<exists>xs. fst (get_history E (bot_coin b) (bot_vs b) 1 h) = Inr xs) \<and>
      (\<forall>h. \<exists>ns. fst (latest_news E 5 h) = Inr ns) \<and>
      (\<forall>h ns p recent. \<exists>d.
          fst (groq_decision E ns p None recent (bot_coin b) (bot_vs b) h) = Inr d) \<longrightarrow>
        cycle_ok E (b, h0)
        \<and> map_of (snap (fst (run_cycle E (b, h0)))) ''prediction'' = Some PNone
        \<and> bot_log (fst (run_cycle E (b, h0))) = bot_log b @ [snap (fst (run_cycle E (b, h0)))])"
proof (intro conjI impI)
  assume "fst (get_prediction_try E symb vs h) = Inl e"
  then show "fst (get_prediction E symb vs h) = None"
    by (rule get_prediction_try_fails)
next
  assume "pred_api E h (str_lower E symb) = Inl e"
  then show "fst (get_prediction E symb vs h) = None"
    by (simp add: get_prediction_provider_fails)
next
  assume "str_upper E vs \<noteq> str ''USD'' \<and> pred_api E h (str_lower E symb) = Inr pred_usd \<and>
      get_price E symb vs (h @ [Net (PredReq (str_lower E symb))]) = (Inr cur_vs, h1) \<and>
      get_price E symb (str ''USD'') h1 = (Inr cur_usd, h2) \<and> \<not> float_truthy E cur_usd"
  then have "get_prediction E symb vs h = (None, h2)"
    by (blast intro: get_prediction_zero_usd)
  then show "fst (get_prediction E symb vs h) = None" by simp
next
  assume a: "(\<forall>h. \<exists>e. pred_api E h (str_lower E (bot_coin b)) = Inl e) \<and>
      (\<forall>h. \<exists>p. fst (get_price E (bot_coin b) (bot_vs b) h) = Inr p) \<and>
      (\<forall>h. \<exists>xs. fst (get_history E (bot_coin b) (bot_vs b) 1 h) = Inr xs) \<and>
      (\<forall>h. \<exists>ns. fst (latest_news E 5 h) = Inr ns) \<and>
      (\<forall>h ns p recent. \<exists>d.
          fst (groq_decision E ns p None recent (bot_coin b) (bot_vs b) h) = Inr d)"
  have c: "cycle_ok E (b, h0)
       \<and> map_of (snap (fst (run_cycle E (b, h0)))) ''prediction'' = Some PNone
       \<and> bot_log (fst (run_cycle E (b, h0))) = bot_log b @ [snap (fst (run_cycle E (b, h0)))]"
    by (rule cycle_without_forecast) (use a in blast)+
  from c show "cycle_ok E (b, h0)" by blast
  from c show "map_of (snap (fst (run_cycle E (b, h0)))) ''prediction'' = Some PNone" by blast
  from c show "bot_log (fst (run_cycle E (b, h0))) = bot_log b @ [snap (fst (run_cycle E (b, h0)))]"
    by blast
qed

theorem forecast_failure_is_absent_witness:
  "fst (get_prediction_try mock_env_no_forecast (str ''XRP'') (str ''USD'') []) =
     Inl (OtherError (str ''timed out''))
   \<and> fst (get_prediction mock_env_no_forecast (str ''XRP'') (str ''USD'') []) = None
   \<and> get_price mock_env_zero_usd (str ''XRP'') (str ''USD'')
       [Net (PredReq (str ''xrp'')), Net (PriceReq (str ''ripple'') (str ''eur''))] =
       (Inr 0, [Net (PredReq (str ''xrp'')), Net (PriceReq (str ''ripple'') (str ''eur'')),
                Net (PriceReq (str ''ripple'') (str ''usd''))])
   \<and> fst (get_prediction mock_env_zero_usd (str ''XRP'') (str ''EUR'') []) = None
   \<and> cycle_ok mock_env_no_forecast (mock_bot, [])
   \<and> map_of (snap (fst (run_cycle mock_env_no_forecast (mock_bot, [])))) ''prediction'' =
       Some PNone"
proof -
  note defs = mock_env_no_forecast_def mock_env_zero_usd_def mock_defs get_price_def
    get_history_def latest_news_def groq_decision_def GROQ_API_KEY_def KEY_PLACEHOLDER_def
    get_prediction_try_def bind_io_def return_io_def raise_io_def slice_to_def Let_def
  have a1: "fst (get_prediction_try mock_env_no_forecast (str ''XRP'') (str ''USD'') []) =
     Inl (OtherError (str ''timed out''))"
    by (simp add: defs)
  have a2: "pred_api mock_env_no_forecast [] (str_lower mock_env_no_forecast (str ''XRP'')) =
     Inl (OtherError (str ''timed out''))"
    by (simp add: defs)
  have z1: "str_upper mock_env_zero_usd (str ''EUR'') \<noteq> str ''USD''"
    by (simp add: defs)
  have z2: "pred_api mock_env_zero_usd [] (str_lower mock_env_zero_usd (str ''XRP'')) = Inr 550000"
    by (simp add: defs)
  have z3: "get_price mock_env_zero_usd (str ''XRP'') (str ''EUR'')
              ([] @ [Net (PredReq (str_lower mock_env_zero_usd (str ''XRP'')))]) =
            (Inr 480000, [Net (PredReq (str ''xrp'')), Net (PriceReq (str ''ripple'') (str ''eur''))])"
    by (simp add: defs)
  have z4: "get_price mock_env_zero_usd (str ''XRP'') (str ''USD'')
       [Net (PredReq (str ''xrp'')), Net (PriceReq (str ''ripple'') (str ''eur''))] =
       (Inr 0, [Net (PredReq (str ''xrp'')), Net (PriceReq (str ''ripple'') (str ''eur'')),
                Net (PriceReq (str ''ripple'') (str ''usd''))])"
    by (simp add: defs)
  have z5: "\<not> float_truthy mock_env_zero_usd 0"
    by (simp add: defs)
  have c1: "\<forall>h. \<exists>e. pred_api mock_env_no_forecast h
                (str_lower mock_env_no_forecast (bot_coin mock_bot)) = Inl e"
    by (simp add: defs)
  have c2: "\<forall>h. \<exists>p. fst (get_price mock_env_no_forecast (bot_coin mock_bot) (bot_vs mock_bot) h) = Inr p"
    by (simp add: defs)
  have c3: "\<forall>h. \<exists>xs. fst (get_history mock_env_no_forecast (bot_coin mock_bot) (bot_vs mock_bot) 1 h) = Inr xs"
    by (simp add: defs)
  have c4: "\<forall>h. \<exists>ns. fst (latest_news mock_env_no_forecast 5 h) = Inr ns"
    by (simp add: defs)
  have c5: "\<forall>h ns p recent. \<exists>d. fst (groq_decision mock_env_no_forecast ns p None recent
                (bot_coin mock_bot) (bot_vs mock_bot) h) = Inr d"
    by (simp add: defs)
  note t1 = forecast_failure_is_absent [where E = mock_env_no_forecast and symb = "str ''XRP''"
      and vs = "str ''USD''" and h = "[]" and e = "OtherError (str ''timed out'')"
      and b = mock_bot and ?h0.0 = "[]"]
  note t2 = forecast_failure_is_absent [where E = mock_env_zero_usd and symb = "str ''XRP''"
      and vs = "str ''EUR''" and h = "[]" and pred_usd = 550000 and cur_vs = 480000
      and cur_usd = 0
      and ?h1.0 = "[Net (PredReq (str ''xrp'')), Net (PriceReq (str ''ripple'') (str ''eur''))]"
      and ?h2.0 = "[Net (PredReq (str ''xrp'')), Net (PriceReq (str ''ripple'') (str ''eur'')),
                Net (PriceReq (str ''ripple'') (str ''usd''))]"]
  from t1 a1 a2 have r1: "fst (get_prediction mock_env_no_forecast (str ''XRP'') (str ''USD'') []) = None"
    by blast
  from t2 z1 z2 z3 z4 z5
  have r2: "fst (get_prediction mock_env_zero_usd (str ''XRP'') (str ''EUR'') []) = None"
    by blast
  from t1 c1 c2 c3 c4 c5 have r3: "cycle_ok mock_env_no_forecast (mock_bot, [])
     \<and> map_of (snap (fst (run_cycle mock_env_no_forecast (mock_bot, [])))) ''prediction'' =
       Some PNone"
    by blast
  from a1 r1 z4 r2 r3 show ?thesis by blast
qed

section \<open>The gateways\<close>

lemma get_price_unknown_symbol:
  "SYMBOL_MAP E (str_upper E symb) = None \<Longrightarrow>
     get_price E symb vs h = (Inl (ValueError (str ''Unknown symbol '' @ symb)), h)"
  by (simp add: get_price_def Let_def)

lemma get_history_unchecked:
  "get_history E symb vs days h =
     (chart_api E h (SYMBOL_MAP E (str_upper E symb)) (str_lower E vs) days,
      h @ [Net (ChartReq (SYMBOL_MAP E (str_upper E symb)) (str_lower E vs) days)])"
  by (simp add: get_history_def Let_def)

text \<open>
  Claim C6. \<open>get_price\<close> raises \<open>ValueError\<close> for a symbol that the symbol map does not
  have, before any request. \<open>get_history\<close> lacks that check: for the same symbol it sends
  the request with the identifier \<open>None\<close> and returns what the provider answers, here the
  empty list.
\<close>

theorem get_history_unknown_symbol:
  "SYMBOL_MAP mock_env (str_upper mock_env (str ''nosuch'')) = None
   \<and> get_price mock_env (str ''nosuch'') (str ''USD'') [] =
       (Inl (ValueError (str ''Unknown symbol nosuch'')), [])
   \<and> get_history mock_env (str ''nosuch'') (str ''USD'') 1 [] =
       (Inr [], [Net (ChartReq None (str ''usd'') 1)])"
  by (simp add: get_price_def get_history_def Let_def mock_defs)

text \<open>
  Claim C8, as stated, fails in two ways: \<open>latest_news\<close> has no handler, so an exception
  of the feed parser reaches the caller instead of an empty list; and for a negative limit
  the slice counts from the end, so the result is longer than the limit.
\<close>

theorem latest_news_counterexample:
  "feed_api mock_env_feed_down [] = Inl (OtherError (str ''connection reset''))
   \<and> fst (latest_news mock_env_feed_down 5 []) = Inl (OtherError (str ''connection reset''))
   \<and> fst (latest_news mock_env (- 1) []) = Inr [str ''A'']
   \<and> \<not> int (length [str ''A'']) \<le> - 1"
  by (simp add: latest_news_def bind_io_def return_io_def raise_io_def slice_to_def Let_def
      mock_env_feed_down_def mock_defs)

text \<open>
  Claim C8, amended. For a limit that is not negative, \<open>latest_news\<close> returns the titles
  of the first \<open>limit\<close> entries of the feed, in the feed's order, so at most \<open>limit\<close>
  strings (none when the feed has no entries). An exception of the feed parser, and the
  \<open>AttributeError\<close> of an entry without a title among the entries kept, reach the caller.
\<close>

theorem latest_news_prefix:
  "(0 \<le> limit \<and> feed_api E h = Inr entries \<and> None \<notin> set (take (nat limit) entries) \<longrightarrow>
      latest_news E limit h = (Inr (map the (take (nat limit) entries)), h @ [Net FeedReq])
      \<and> int (length (map the (take (nat limit) entries))) \<le> limit)
   \<and> (feed_api E h = Inl e \<longrightarrow> latest_news E limit h = (Inl e, h @ [Net FeedReq]))
   \<and> (feed_api E h = Inr entries \<and> None \<in> set (slice_to limit entries) \<longrightarrow>
        latest_news E limit h = (Inl AttributeError, h @ [Net FeedReq]))"
  by (auto simp: latest_news_def bind_io_def return_io_def raise_io_def slice_to_def Let_def)

theorem latest_news_prefix_witness:
  "latest_news mock_env 1 [] = (Inr [str ''A''], [Net FeedReq])
   \<and> latest_news mock_env 5 [] = (Inr [str ''A'', str ''B''], [Net FeedReq])
   \<and> latest_news mock_env_feed_down 5 [] =
       (Inl (OtherError (str ''connection reset'')), [Net FeedReq])
   \<and> latest_news mock_env_untitled 5 [] = (Inl AttributeError, [Net FeedReq])"
proof -
  have f: "feed_api mock_env [] = Inr [Some (str ''A''), Some (str ''B'')]"
    by (simp add: mock_env_def)
  have d: "feed_api mock_env_feed_down [] = Inl (OtherError (str ''connection reset''))"
    by (simp add: mock_env_feed_down_def)
  have u: "feed_api mock_env_untitled [] = Inr [Some (str ''A''), None]"
    by (simp add: mock_env_untitled_def)
  have u2: "None \<in> set (slice_to 5 [Some (str ''A''), None])"
    by (simp add: slice_to_def)
  from latest_news_prefix [where E = mock_env and h = "[]" and limit = 1
      and entries = "[Some (str ''A''), Some (str ''B'')]"] f
  have 1: "latest_news mock_env 1 [] = (Inr [str ''A''], [Net FeedReq])" by simp
  from latest_news_prefix [where E = mock_env and h = "[]" and limit = 5
      and entries = "[Some (str ''A''), Some (str ''B'')]"] f
  have 2: "latest_news mock_env 5 [] = (Inr [str ''A'', str ''B''], [Net FeedReq])" by simp
  from latest_news_prefix [where E = mock_env_feed_down and h = "[]" and limit = 5
      and e = "OtherError (str ''connection reset'')"] d
  have 3: "latest_news mock_env_feed_down 5 [] =
       (Inl (OtherError (str ''connection reset'')), [Net FeedReq])" by simp
  from latest_news_prefix [where E = mock_env_untitled and h = "[]" and limit = 5
      and entries = "[Some (str ''A''), None]"] u u2
  have 4: "latest_news mock_env_untitled 5 [] = (Inl AttributeError, [Net FeedReq])" by simp
  from 1 2 3 4 show ?thesis by blast
qed

section \<open>The lock\<close>

lemma added_append: "added h (h @ evs) = evs"
  by (simp add: added_def)

lemma lock_ok_nets: "list_all is_net evs \<Longrightarrow> lock_ok False (evs @ rest) = lock_ok False rest"
proof (induction evs)
  case Nil
  then show ?case by simp
next
  case (Cons x xs)
  then show ?case by (cases x) simp_all
qed

text \<open>
  The worker and the copying handlers keep the lock away from the network. A turn of the
  worker makes its requests first, without the lock; then either it fails, prints the
  exception and sleeps, never having taken the lock, or it takes the lock once, to replace
  the snapshot, append to the log and write the log file, releases it and sleeps. No request
  and no sleep happens while the worker holds the lock. \<open>snapshot\<close>, \<open>api_log\<close> and
  \<open>configure\<close> take the lock and release it with nothing in between.
\<close>

lemma worker_lock_discipline:
  "((\<exists>e evs. list_all is_net evs \<and>
        added h (snd (run_cycle E (b, h))) = evs @ [Print e, Sleep (max 5 (bot_interval b))])
    \<or> (\<exists>evs pr. list_all is_net evs \<and> (pr = [] \<or> (\<exists>e. pr = [Print e])) \<and>
        added h (snd (run_cycle E (b, h))) =
          evs @ [Acquire, FileWrite (log_file b)] @ pr @
          [Release, Sleep (max 5 (bot_interval b))]))
   \<and> lock_ok False (added h (snd (run_cycle E (b, h))))
   \<and> added h (snd (snd (snapshot (b, h)))) = [Acquire, Release]
   \<and> added h (snd (snd (api_log (b, h)))) = [Acquire, Release]
   \<and> added h (snd (configure E coin vs interval (b, h))) = [Acquire, Release]"
proof -
  have turn: "((\<exists>e evs. list_all is_net evs \<and>
        added h (snd (run_cycle E (b, h))) = evs @ [Print e, Sleep (max 5 (bot_interval b))])
    \<or> (\<exists>evs pr. list_all is_net evs \<and> (pr = [] \<or> (\<exists>e. pr = [Print e])) \<and>
        added h (snd (run_cycle E (b, h))) =
          evs @ [Acquire, FileWrite (log_file b)] @ pr @
          [Release, Sleep (max 5 (bot_interval b))]))
   \<and> lock_ok False (added h (snd (run_cycle E (b, h))))"
  proof (cases rule: run_cycle_cases [of E b h])
    case (failed e evs)
    have a: "added h (snd (run_cycle E (b, h))) = evs @ [Print e, Sleep (max 5 (bot_interval b))]"
      by (simp add: failed(3) added_def)
    have "lock_ok False (evs @ [Print e, Sleep (max 5 (bot_interval b))])"
      by (simp add: lock_ok_nets [OF failed(1)])
    with a failed(1) show ?thesis by auto
  next
    case (published price pred decision prompt ai_raw news evs pr S)
    have a: "added h (snd (run_cycle E (b, h))) =
          evs @ [Acquire, FileWrite (log_file b)] @ pr @ [Release, Sleep (max 5 (bot_interval b))]"
      by (simp add: published(5) added_def)
    have pr: "pr = [] \<or> (\<exists>e. pr = [Print e])"
      by (simp add: published(3) split: option.splits)
    then have "lock_ok False (evs @ [Acquire, FileWrite (log_file b)] @ pr @
          [Release, Sleep (max 5 (bot_interval b))])"
      by (auto simp: lock_ok_nets [OF published(1)])
    with a pr published(1) show ?thesis by auto
  qed
  have "added h (snd (snd (snapshot (b, h)))) = [Acquire, Release]"
    and "added h (snd (snd (api_log (b, h)))) = [Acquire, Release]"
    and "added h (snd (configure E coin vs interval (b, h))) = [Acquire, Release]"
    by (simp_all add: snapshot_def api_log_def configure_def added_def)
  with turn show ?thesis by blast
qed

lemma worker_lock_discipline_mock:
  "added [] (snd (run_cycle mock_env (mock_bot, []))) =
     [Net (PriceReq (str ''ripple'') (str ''usd'')),
      Net (ChartReq (Some (str ''ripple'')) (str ''usd'') 1),
      Net FeedReq, Net (PredReq (str ''xrp'')),
      Acquire, FileWrite (str ''trade_log.json''), Release, Sleep 60]
   \<and> lock_ok False (added [] (snd (run_cycle mock_env (mock_bot, []))))"
proof -
  have "added [] (snd (run_cycle mock_env (mock_bot, []))) =
     [Net (PriceReq (str ''ripple'') (str ''usd'')),
      Net (ChartReq (Some (str ''ripple'')) (str ''usd'') 1),
      Net FeedReq, Net (PredReq (str ''xrp'')),
      Acquire, FileWrite (str ''trade_log.json''), Release, Sleep 60]"
    by (simp add: cycle_defs mock_defs added_def)
  with worker_lock_discipline [of "[]" mock_env mock_bot] show ?thesis by blast
qed

lemma api_history_events:
  "added h (snd (snd (api_history E (b, h)))) =
     [Acquire,
      Net (ChartReq (SYMBOL_MAP E (str_upper E (bot_coin b))) (str_lower E (bot_vs b)) 1),
      Release]
   \<and> \<not> lock_ok False (added h (snd (snd (api_history E (b, h)))))"
  by (simp add: api_history_def get_history_def Let_def added_def)

text \<open>
  Claim C9. \<open>api_history\<close> breaks the discipline that the claim states and that its
  sibling paths keep: it calls \<open>get_history\<close> inside \<open>with bot.lock\<close>, so its request
  to the chart endpoint is made between acquiring and releasing the lock. For the mocked bot
  the events of one call are the acquire, the request and the release, in that order.
\<close>

theorem api_history_request_under_lock:
  "added [] (snd (snd (api_history mock_env (mock_bot, [])))) =
     [Acquire, Net (ChartReq (Some (str ''ripple'')) (str ''usd'') 1), Release]
   \<and> \<not> lock_ok False (added [] (snd (snd (api_history mock_env (mock_bot, [])))))"
  by (simp add: api_history_def get_history_def Let_def added_def mock_defs)

end
